(* ===== verification/Prelude.thy ===== *)
theory Prelude
  imports Main
begin

text \<open>
  Shared vocabulary of the LS-8 development. The emulator \<open>src/cpu.py\<close> is Python:
  its values are unbounded \<open>int\<close>s, its memory and register file are Python lists
  indexed by \<open>int\<close> (negative indices count from the end, anything else raises
  \<open>IndexError\<close>), and every failure aborts the program. This theory holds
  \<^item> \<open>fault\<close>, the ways a run of the emulator can end abnormally;
  \<^item> \<open>bind_sum\<close>, exception propagation: the first \<open>Inl\<close> aborts the rest;
  \<^item> \<open>py_index\<close>, \<open>py_get\<close> and \<open>py_set\<close>, Python's \<open>xs[i]\<close> and
    \<open>xs[i] = v\<close> on lists, with the read-after-write lemmas the components share.
\<close>

section \<open>Faults\<close>

text \<open>
  \<open>IndexError\<close> is Python's exception for a list index out of range;
  \<open>ValueError\<close> is raised by \<open>int(s, 2)\<close> on a digit that is not binary;
  \<open>TypeError\<close> is raised by the string operator \<open>%\<close> when the number of
  conversions and of arguments differ; \<open>FileNotFoundError\<close> by \<open>open\<close> on a
  name that names no file;
  \<open>UnsupportedAluOp\<close> is the \<open>Exception("Unsupported ALU operation")\<close> of
  \<open>CPU.alu\<close>; \<open>InvalidInstruction ir\<close> is the branch of \<open>CPU.run\<close> that prints
  \<open>Invalid instruction. ir\<close> and calls \<open>sys.exit(1)\<close>.
\<close>

datatype fault =
    IndexError
  | ValueError
  | TypeError
  | FileNotFoundError
  | UnsupportedAluOp
  | InvalidInstruction int

type_synonym 'a result = "fault + 'a"

named_theorems py_list_simps "lemmas on Python list indexing"

fun bind_sum :: "'e + 'a \<Rightarrow> ('a \<Rightarrow> 'e + 'b) \<Rightarrow> 'e + 'b" where
  "bind_sum (Inl e) f = Inl e"
| "bind_sum (Inr a) f = f a"

section \<open>Python list indexing\<close>

text \<open>
  \<open>py_index i n\<close> is the position that the Python index \<open>i\<close> denotes in a list
  of length \<open>n\<close>, or \<open>None\<close> where Python raises \<open>IndexError\<close>.
\<close>

definition py_index :: "int \<Rightarrow> nat \<Rightarrow> nat option" where
  "py_index i n =
     (let j = (if i < 0 then int n + i else i)
      in if 0 \<le> j \<and> j < int n then Some (nat j) else None)"

definition py_get :: "'a list \<Rightarrow> int \<Rightarrow> 'a result" where
  "py_get xs i = (case py_index i (length xs) of
                    None \<Rightarrow> Inl IndexError
                  | Some k \<Rightarrow> Inr (xs ! k))"

definition py_set :: "'a list \<Rightarrow> int \<Rightarrow> 'a \<Rightarrow> 'a list result" where
  "py_set xs i v = (case py_index i (length xs) of
                      None \<Rightarrow> Inl IndexError
                    | Some k \<Rightarrow> Inr (xs[k := v]))"

section \<open>Lemmas\<close>

lemma bind_sum_Inr_iff [simp]:
  "bind_sum m f = Inr b \<longleftrightarrow> (\<exists>a. m = Inr a \<and> f a = Inr b)"
  by (cases m) auto

lemma bind_sum_Inl_iff:
  "bind_sum m f = Inl e \<longleftrightarrow> m = Inl e \<or> (\<exists>a. m = Inr a \<and> f a = Inl e)"
  by (cases m) auto

lemma bind_sum_assoc:
  "bind_sum (bind_sum m f) g = bind_sum m (\<lambda>a. bind_sum (f a) g)"
  by (cases m) auto

lemma bind_sum_all_Inl:
  "(\<And>a. \<exists>e. f a = Inl e) \<Longrightarrow> \<exists>e. bind_sum m f = Inl e"
  by (cases m) auto

lemma py_index_Some_lt [py_list_simps]:
  "py_index i n = Some k \<Longrightarrow> k < n"
  by (auto simp: py_index_def Let_def split: if_splits)

lemma py_index_nonneg [py_list_simps]:
  "0 \<le> i \<Longrightarrow> py_index i n = (if i < int n then Some (nat i) else None)"
  by (simp add: py_index_def)

lemma py_index_neg [py_list_simps]:
  "i < 0 \<Longrightarrow> py_index i n = (if - int n \<le> i then Some (nat (int n + i)) else None)"
  by (auto simp: py_index_def)

lemma py_index_None_iff:
  "py_index i n = None \<longleftrightarrow> i < - int n \<or> int n \<le> i"
  by (auto simp: py_index_def Let_def)

lemma py_get_Inr_iff:
  "py_get xs i = Inr v \<longleftrightarrow> (\<exists>k. py_index i (length xs) = Some k \<and> v = xs ! k)"
  by (auto simp: py_get_def split: option.splits)

lemma py_get_Inl_iff:
  "py_get xs i = Inl e \<longleftrightarrow> e = IndexError \<and> py_index i (length xs) = None"
  by (auto simp: py_get_def split: option.splits)

lemma py_set_Inr_iff:
  "py_set xs i v = Inr ys \<longleftrightarrow> (\<exists>k. py_index i (length xs) = Some k \<and> ys = xs[k := v])"
  by (auto simp: py_set_def split: option.splits)

lemma py_set_length [py_list_simps]:
  "py_set xs i v = Inr ys \<Longrightarrow> length ys = length xs"
  by (auto simp: py_set_Inr_iff)

lemma py_get_in_set [py_list_simps]:
  "py_get xs i = Inr v \<Longrightarrow> v \<in> set xs"
  by (auto simp: py_get_Inr_iff dest: py_index_Some_lt)

lemma py_set_set_subset:
  "py_set xs i v = Inr ys \<Longrightarrow> set ys \<subseteq> insert v (set xs)"
  by (auto simp: py_set_Inr_iff dest: set_update_subset_insert [THEN subsetD])

text \<open>A write succeeds exactly where a read at the same index does.\<close>

lemma py_set_defined_iff:
  "(\<exists>ys. py_set xs i v = Inr ys) \<longleftrightarrow> (\<exists>w. py_get xs i = Inr w)"
  by (auto simp: py_set_def py_get_def split: option.splits)

text \<open>Reading back the index just written gives the value written.\<close>

lemma py_get_py_set_same:
  "py_set xs i v = Inr ys \<Longrightarrow> py_get ys i = Inr v"
  by (auto simp: py_set_Inr_iff py_get_def py_index_Some_lt)

lemma py_get_py_set_other:
  assumes "py_set xs i v = Inr ys" and "py_index j (length xs) \<noteq> py_index i (length xs)"
  shows "py_get ys j = py_get xs j"
  using assms by (auto simp: py_set_Inr_iff py_get_def split: option.splits)

text \<open>Writing back the value just read changes nothing.\<close>

lemma py_set_py_get_same:
  "py_get xs i = Inr v \<Longrightarrow> py_set xs i v = Inr xs"
  by (auto simp: py_set_def py_get_def split: option.splits)

lemma py_get_nonneg_Inr [py_list_simps]:
  "0 \<le> i \<Longrightarrow> i < int (length xs) \<Longrightarrow> py_get xs i = Inr (xs ! nat i)"
  by (simp add: py_get_def py_index_def)

lemma py_set_nonneg_Inr [py_list_simps]:
  "0 \<le> i \<Longrightarrow> i < int (length xs) \<Longrightarrow> py_set xs i v = Inr (xs[nat i := v])"
  by (simp add: py_set_def py_index_def)

lemma py_get_out_of_range [py_list_simps]:
  "i < - int (length xs) \<or> int (length xs) \<le> i \<Longrightarrow> py_get xs i = Inl IndexError"
  by (auto simp: py_get_Inl_iff py_index_None_iff)

lemma py_index_in_range:
  "- int n \<le> i \<Longrightarrow> i < int n \<Longrightarrow> \<exists>k. py_index i n = Some k"
  by (auto simp: py_index_def Let_def)

lemma py_set_in_range:
  "- int (length xs) \<le> i \<Longrightarrow> i < int (length xs) \<Longrightarrow> \<exists>ys. py_set xs i v = Inr ys"
  by (auto simp: py_set_def dest: py_index_in_range)

lemma py_get_in_range:
  "- int (length xs) \<le> i \<Longrightarrow> i < int (length xs) \<Longrightarrow> \<exists>v. py_get xs i = Inr v"
  by (auto simp: py_get_def dest: py_index_in_range)

lemma list_all_update: "list_all P xs \<Longrightarrow> P x \<Longrightarrow> list_all P (xs[k := x])"
  by (auto simp: list_all_iff dest: set_update_subset_insert [THEN subsetD])

lemma py_get_list_all: "list_all P xs \<Longrightarrow> py_get xs i = Inr x \<Longrightarrow> P x"
  by (auto simp: list_all_iff dest: py_get_in_set)

lemma py_set_list_all: "py_set xs i x = Inr ys \<Longrightarrow> list_all P xs \<Longrightarrow> P x \<Longrightarrow> list_all P ys"
  by (auto simp: py_set_Inr_iff intro: list_all_update)

lemma py_index_mod:
  assumes "- int n \<le> i" and "i < int n"
  shows "py_index i n = Some (nat (i mod int n))"
proof (cases "i < 0")
  case True
  with assms have "(int n + i) mod int n = int n + i"
    by (intro mod_pos_pos_trivial) simp_all
  then have "i mod int n = int n + i" by (simp only: mod_add_self1)
  with True assms show ?thesis by (simp add: py_index_def)
qed (insert assms, simp add: py_index_def)

lemma py_get_py_set_neg_alias:
  "0 \<le> i \<Longrightarrow> i < int (length xs) \<Longrightarrow> py_index (i - int (length xs)) (length xs) = py_index i (length xs)"
  by (simp add: py_index_def)

end
