(* ===== verification/Machine.thy ===== *)
theory Machine
  imports Prelude
begin

text \<open>
  The state of the emulator, \<open>class CPU\<close> of \<open>src/cpu.py\<close>: the record \<open>cpu\<close>
  has one field per attribute that \<open>__init__\<close> creates (\<open>ram\<close>, \<open>reg\<close>,
  \<open>pc\<close>, \<open>sp\<close>, \<open>fl\<close>), all Python \<open>int\<close>s or lists of them. \<open>cpu_init\<close>
  is \<open>__init__\<close>, \<open>ram_read\<close> and \<open>ram_write\<close> are the two memory accessors.
  \<open>cpu_wf\<close> is the shape invariant (256 memory cells, 8 registers) that every
  operation keeps; the lemmas of this theory are the frame facts of the accessors.
\<close>

record cpu =
  ram :: "int list"
  reg :: "int list"
  pc :: int
  sp :: int
  fl :: int

text \<open>
  \<open>self.sp = self.reg[7]\<close> copies the initial value of register 7 (zero): the stack
  pointer is a field of its own from then on, not an alias of the register.
\<close>

definition cpu_init :: cpu where
  "cpu_init =
     (let regs = replicate 8 (0::int)
      in \<lparr>ram = replicate 256 0, reg = regs, pc = 0, sp = regs ! 7, fl = 0\<rparr>)"

definition ram_read :: "cpu \<Rightarrow> int \<Rightarrow> int result" where
  "ram_read c mar = py_get (ram c) mar"

definition ram_write :: "cpu \<Rightarrow> int \<Rightarrow> int \<Rightarrow> cpu result" where
  "ram_write c mar mdr = bind_sum (py_set (ram c) mar mdr) (\<lambda>m. Inr (c\<lparr>ram := m\<rparr>))"

definition cpu_wf :: "cpu \<Rightarrow> bool" where
  "cpu_wf c \<longleftrightarrow> length (ram c) = 256 \<and> length (reg c) = 8"

section \<open>Lemmas\<close>

lemma cpu_init_fields [simp]:
  "ram cpu_init = replicate 256 0" "reg cpu_init = replicate 8 0"
  "pc cpu_init = 0" "sp cpu_init = 0" "fl cpu_init = 0"
  by (simp_all add: cpu_init_def)

lemma cpu_wf_init: "cpu_wf cpu_init"
  by (simp add: cpu_wf_def)

lemma ram_write_Inr_iff:
  "ram_write c mar mdr = Inr c' \<longleftrightarrow> (\<exists>m. py_set (ram c) mar mdr = Inr m \<and> c' = c\<lparr>ram := m\<rparr>)"
  by (auto simp: ram_write_def)

lemma ram_write_frame:
  "ram_write c mar mdr = Inr c' \<Longrightarrow>
     reg c' = reg c \<and> pc c' = pc c \<and> sp c' = sp c \<and> fl c' = fl c \<and> length (ram c') = length (ram c)"
  by (auto simp: ram_write_Inr_iff py_list_simps)

lemma ram_write_cpu_wf:
  "cpu_wf c \<Longrightarrow> ram_write c mar mdr = Inr c' \<Longrightarrow> cpu_wf c'"
  by (auto simp: cpu_wf_def dest: ram_write_frame)

text \<open>Memory round trip: what \<open>ram_write\<close> stores, \<open>ram_read\<close> returns.\<close>

lemma ram_read_ram_write_same:
  "ram_write c mar mdr = Inr c' \<Longrightarrow> ram_read c' mar = Inr mdr"
  by (auto simp: ram_write_Inr_iff ram_read_def py_get_py_set_same)

lemma ram_read_ram_write_other:
  "ram_write c mar mdr = Inr c' \<Longrightarrow> py_index a (length (ram c)) \<noteq> py_index mar (length (ram c)) \<Longrightarrow>
     ram_read c' a = ram_read c a"
  by (auto simp: ram_write_Inr_iff ram_read_def intro: py_get_py_set_other)

text \<open>On a well-formed state the valid addresses are exactly \<open>-256 .. 255\<close>.\<close>

lemma ram_read_defined_iff:
  "cpu_wf c \<Longrightarrow> (\<exists>v. ram_read c a = Inr v) \<longleftrightarrow> -256 \<le> a \<and> a < 256"
  by (auto simp: cpu_wf_def ram_read_def py_get_def py_index_def Let_def split: option.splits if_splits)

end
