(* ===== verification/ALU.thy ===== *)
theory ALU
  imports Machine
begin

text \<open>
  \<open>CPU.alu\<close> of \<open>src/cpu.py\<close> (lines 56--72): the operation is selected by a Python
  string, the operands are register indices, and the result is written back into the
  register file (\<open>ADD\<close>, \<open>MUL\<close>) or into the flag register \<open>fl\<close> (\<open>CMP\<close>).
  Any other string raises \<open>Exception("Unsupported ALU operation")\<close>, which is
  \<open>UnsupportedAluOp\<close> here. Values are unbounded Python integers: nothing wraps.

  The abstract view of the flag register is the datatype \<open>flag\<close> with the three
  outcomes of a comparison; \<open>flag_bits\<close> is the encoding the code writes into
  \<open>fl\<close>, \<open>compare\<close> the outcome a comparison promises. The lemmas show that
  \<open>CMP\<close> writes exactly \<open>flag_bits (compare x y)\<close>, that \<open>ADD\<close> and \<open>MUL\<close>
  write the sum and the product, which faults are possible, and what no branch touches.
\<close>

datatype flag = EQUAL | LESS_THAN | GREATER_THAN

fun flag_bits :: "flag \<Rightarrow> int" where
  "flag_bits EQUAL = 0b00000001"
| "flag_bits LESS_THAN = 0b00000100"
| "flag_bits GREATER_THAN = 0b00000010"

definition compare :: "int \<Rightarrow> int \<Rightarrow> flag" where
  "compare x y = (if x = y then EQUAL else if x < y then LESS_THAN else GREATER_THAN)"

definition alu :: "string \<Rightarrow> int \<Rightarrow> int \<Rightarrow> cpu \<Rightarrow> cpu result" where
  "alu op reg_a reg_b c =
     (if op = ''ADD'' then
        bind_sum (py_get (reg c) reg_a) (\<lambda>x.
        bind_sum (py_get (reg c) reg_b) (\<lambda>y.
        bind_sum (py_set (reg c) reg_a (x + y)) (\<lambda>r. Inr (c\<lparr>reg := r\<rparr>))))
      else if op = ''MUL'' then
        bind_sum (py_get (reg c) reg_a) (\<lambda>x.
        bind_sum (py_get (reg c) reg_b) (\<lambda>y.
        bind_sum (py_set (reg c) reg_a (x * y)) (\<lambda>r. Inr (c\<lparr>reg := r\<rparr>))))
      else if op = ''CMP'' then
        bind_sum (py_get (reg c) reg_a) (\<lambda>x.
        bind_sum (py_get (reg c) reg_b) (\<lambda>y.
          Inr (if x = y then c\<lparr>fl := 0b00000001\<rparr>
               else if x < y then c\<lparr>fl := 0b00000100\<rparr>
               else if x > y then c\<lparr>fl := 0b00000010\<rparr>
               else c)))
      else Inl UnsupportedAluOp)"

text \<open>The two register reads every branch starts with.\<close>

definition alu_operands :: "cpu \<Rightarrow> int \<Rightarrow> int \<Rightarrow> (int \<times> int) result" where
  "alu_operands c a b =
     bind_sum (py_get (reg c) a) (\<lambda>x. bind_sum (py_get (reg c) b) (\<lambda>y. Inr (x, y)))"

section \<open>Lemmas\<close>

lemma flag_bits_inj: "flag_bits f = flag_bits g \<longleftrightarrow> f = g"
  by (cases f; cases g) simp_all

lemma compare_cases:
  "compare x y = EQUAL \<longleftrightarrow> x = y"
  "compare x y = LESS_THAN \<longleftrightarrow> x < y"
  "compare x y = GREATER_THAN \<longleftrightarrow> y < x"
  by (auto simp: compare_def)

lemma alu_operands_Inr_iff:
  "alu_operands c a b = Inr (x, y) \<longleftrightarrow> py_get (reg c) a = Inr x \<and> py_get (reg c) b = Inr y"
  by (auto simp: alu_operands_def)

lemma alu_ADD:
  "alu ''ADD'' a b c =
     bind_sum (alu_operands c a b) (\<lambda>(x, y).
       bind_sum (py_set (reg c) a (x + y)) (\<lambda>r. Inr (c\<lparr>reg := r\<rparr>)))"
  by (cases "py_get (reg c) a"; cases "py_get (reg c) b") (simp_all add: alu_def alu_operands_def)

lemma alu_MUL:
  "alu ''MUL'' a b c =
     bind_sum (alu_operands c a b) (\<lambda>(x, y).
       bind_sum (py_set (reg c) a (x * y)) (\<lambda>r. Inr (c\<lparr>reg := r\<rparr>)))"
  by (cases "py_get (reg c) a"; cases "py_get (reg c) b") (simp_all add: alu_def alu_operands_def)

lemma alu_CMP:
  "alu ''CMP'' a b c =
     bind_sum (alu_operands c a b) (\<lambda>(x, y). Inr (c\<lparr>fl := flag_bits (compare x y)\<rparr>))"
  by (cases "py_get (reg c) a"; cases "py_get (reg c) b")
     (auto simp: alu_def alu_operands_def compare_def)

lemma alu_frame:
  "alu op a b c = Inr c' \<Longrightarrow>
     ram c' = ram c \<and> pc c' = pc c \<and> sp c' = sp c \<and> length (reg c') = length (reg c)"
  by (auto simp: alu_def py_list_simps split: if_splits)

lemma alu_cpu_wf: "cpu_wf c \<Longrightarrow> alu op a b c = Inr c' \<Longrightarrow> cpu_wf c'"
  by (auto simp: cpu_wf_def dest: alu_frame)

text \<open>
  C3. Comparison consistency: \<open>CMP\<close> on two valid registers holding \<open>x\<close> and \<open>y\<close>
  succeeds, changes only the flag register, and sets it to the encoding of
  \<open>compare x y\<close>; that encoding is \<open>0b001\<close> exactly when \<open>x = y\<close>, \<open>0b100\<close>
  exactly when \<open>x < y\<close>, and \<open>0b010\<close> exactly when \<open>x > y\<close>.
\<close>

theorem alu_cmp_flag:
  assumes "py_get (reg c) a = Inr x" "py_get (reg c) b = Inr y"
  shows "alu ''CMP'' a b c = Inr (c\<lparr>fl := flag_bits (compare x y)\<rparr>)
    \<and> (flag_bits (compare x y) = 0b00000001 \<longleftrightarrow> x = y)
    \<and> (flag_bits (compare x y) = 0b00000100 \<longleftrightarrow> x < y)
    \<and> (flag_bits (compare x y) = 0b00000010 \<longleftrightarrow> y < x)"
  using assms by (auto simp: alu_CMP alu_operands_def compare_def)

text \<open>
  C12. \<open>MUL\<close> on valid registers stores the exact integer product in the first
  register and changes nothing else: the product is not reduced to the 8-bit cell width.
\<close>

theorem alu_mul_product:
  assumes "py_index a (length (reg c)) = Some k" "py_get (reg c) b = Inr y"
  shows "alu ''MUL'' a b c = Inr (c\<lparr>reg := (reg c)[k := reg c ! k * y]\<rparr>)"
  using assms by (simp add: alu_MUL alu_operands_def py_get_def py_set_def)

end
