(* ===== verification/Execute.thy ===== *)
theory Execute
  imports ALU
begin

text \<open>
  One iteration of the \<open>while True\<close> loop of \<open>CPU.run\<close> (\<open>src/cpu.py\<close>,
  lines 94--150). The loop body fetches \<open>ir = self.ram[self.pc]\<close> and, before it
  looks at \<open>ir\<close>, reads both operand cells \<open>pc + 1\<close> and \<open>pc + 2\<close>; it then
  compares \<open>ir\<close> with the eleven opcode constants in the order of the source and runs
  the matching branch. Each branch is one handler here (\<open>exec_ldi\<close>, \ldots,
  \<open>exec_jne\<close>); \<open>dispatch\<close> is the \<open>if\<close>/\<open>elif\<close> chain and \<open>step\<close> the whole
  body. A step ends in one of three ways: \<open>Inr (Next out c')\<close> continues from
  \<open>c'\<close> after printing the values \<open>out\<close> (\<open>PRN\<close> prints one), \<open>Inr Halt\<close> is the
  \<open>break\<close> of \<open>HLT\<close>, and \<open>Inl f\<close> is a fault that ends the process.
\<close>

datatype step_result = Next "int list" cpu | Halt

section \<open>Opcodes\<close>

definition ldi :: int where "ldi = 0b10000010"
definition prn :: int where "prn = 0b01000111"
definition add :: int where "add = 0b10100000"
definition mul :: int where "mul = 0b10100010"
definition hlt :: int where "hlt = 0b00000001"
definition push :: int where "push = 0b01000101"
definition pop :: int where "pop = 0b01000110"
definition cmp :: int where "cmp = 0b10100111"
definition jmp :: int where "jmp = 0b01010100"
definition jeq :: int where "jeq = 0b01010101"
definition jne :: int where "jne = 0b01010110"

lemmas opcode_defs = ldi_def prn_def add_def mul_def hlt_def push_def pop_def cmp_def
  jmp_def jeq_def jne_def

section \<open>Handlers\<close>

definition exec_ldi :: "int \<Rightarrow> int \<Rightarrow> cpu \<Rightarrow> step_result result" where
  "exec_ldi operand_a operand_b c =
     bind_sum (py_set (reg c) operand_a operand_b) (\<lambda>r.
       Inr (Next [] (c\<lparr>reg := r, pc := pc c + 3\<rparr>)))"

definition exec_prn :: "int \<Rightarrow> cpu \<Rightarrow> step_result result" where
  "exec_prn operand_a c =
     bind_sum (py_get (reg c) operand_a) (\<lambda>v. Inr (Next [v] (c\<lparr>pc := pc c + 2\<rparr>)))"

definition exec_mul :: "int \<Rightarrow> int \<Rightarrow> cpu \<Rightarrow> step_result result" where
  "exec_mul operand_a operand_b c =
     bind_sum (alu ''MUL'' operand_a operand_b c) (\<lambda>c'. Inr (Next [] (c'\<lparr>pc := pc c' + 3\<rparr>)))"

text \<open>\<open>PUSH\<close> stores at the current \<open>sp\<close> and then decrements it.\<close>

definition exec_push :: "int \<Rightarrow> cpu \<Rightarrow> step_result result" where
  "exec_push operand_a c =
     bind_sum (py_get (reg c) operand_a) (\<lambda>v.
     bind_sum (ram_write c (sp c) v) (\<lambda>c'.
       Inr (Next [] (c'\<lparr>pc := pc c' + 2, sp := sp c' - 1\<rparr>))))"

text \<open>\<open>POP\<close> reads at \<open>sp + 1\<close> and then increments \<open>sp\<close>.\<close>

definition exec_pop :: "int \<Rightarrow> cpu \<Rightarrow> step_result result" where
  "exec_pop operand_a c =
     bind_sum (ram_read c (sp c + 1)) (\<lambda>v.
     bind_sum (py_set (reg c) operand_a v) (\<lambda>r.
       Inr (Next [] (c\<lparr>reg := r, sp := sp c + 1, pc := pc c + 2\<rparr>))))"

definition exec_cmp :: "int \<Rightarrow> int \<Rightarrow> cpu \<Rightarrow> step_result result" where
  "exec_cmp operand_a operand_b c =
     bind_sum (alu ''CMP'' operand_a operand_b c) (\<lambda>c'. Inr (Next [] (c'\<lparr>pc := pc c' + 3\<rparr>)))"

definition exec_jmp :: "int \<Rightarrow> cpu \<Rightarrow> step_result result" where
  "exec_jmp operand_a c =
     bind_sum (py_get (reg c) operand_a) (\<lambda>v. Inr (Next [] (c\<lparr>pc := v\<rparr>)))"

definition exec_jeq :: "int \<Rightarrow> cpu \<Rightarrow> step_result result" where
  "exec_jeq operand_a c =
     (if fl c = 0b00000001
      then bind_sum (py_get (reg c) operand_a) (\<lambda>v. Inr (Next [] (c\<lparr>pc := v\<rparr>)))
      else Inr (Next [] (c\<lparr>pc := pc c + 2\<rparr>)))"

definition exec_jne :: "int \<Rightarrow> cpu \<Rightarrow> step_result result" where
  "exec_jne operand_a c =
     (if fl c \<noteq> 0b00000001
      then bind_sum (py_get (reg c) operand_a) (\<lambda>v. Inr (Next [] (c\<lparr>pc := v\<rparr>)))
      else Inr (Next [] (c\<lparr>pc := pc c + 2\<rparr>)))"

section \<open>Dispatch and the loop body\<close>

text \<open>
  The chain of comparisons in the order of the source. \<open>add\<close> is defined in
  \<open>run\<close> but no branch tests for it, so an \<open>ADD\<close> instruction falls through to
  the invalid-instruction branch.
\<close>

definition dispatch :: "int \<Rightarrow> int \<Rightarrow> int \<Rightarrow> cpu \<Rightarrow> step_result result" where
  "dispatch ir operand_a operand_b c =
     (if ir = ldi then exec_ldi operand_a operand_b c
      else if ir = prn then exec_prn operand_a c
      else if ir = mul then exec_mul operand_a operand_b c
      else if ir = push then exec_push operand_a c
      else if ir = pop then exec_pop operand_a c
      else if ir = cmp then exec_cmp operand_a operand_b c
      else if ir = jmp then exec_jmp operand_a c
      else if ir = jeq then exec_jeq operand_a c
      else if ir = jne then exec_jne operand_a c
      else if ir = hlt then Inr Halt
      else Inl (InvalidInstruction ir))"

definition step :: "cpu \<Rightarrow> step_result result" where
  "step c =
     bind_sum (py_get (ram c) (pc c)) (\<lambda>ir.
     bind_sum (ram_read c (pc c + 1)) (\<lambda>operand_a.
     bind_sum (ram_read c (pc c + 2)) (\<lambda>operand_b.
       dispatch ir operand_a operand_b c)))"

section \<open>Fetch\<close>

text \<open>
  The fetch reads three cells, so it succeeds on a well-formed state exactly when
  \<open>pc\<close>, \<open>pc + 1\<close> and \<open>pc + 2\<close> are valid Python indices of the 256-cell
  memory, that is for \<open>-256 \<le> pc \<le> 253\<close>; for a non-negative \<open>pc\<close> it reads
  the cells \<open>pc\<close>, \<open>pc + 1\<close>, \<open>pc + 2\<close>.
\<close>

lemma step_fetch:
  assumes "cpu_wf c" "0 \<le> pc c" "pc c \<le> 253"
  shows "step c = dispatch (ram c ! nat (pc c)) (ram c ! nat (pc c + 1)) (ram c ! nat (pc c + 2)) c"
  using assms by (simp add: step_def ram_read_def cpu_wf_def py_get_nonneg_Inr)

lemma step_fetch_IndexError:
  assumes "cpu_wf c" "pc c < -256 \<or> 253 < pc c"
  shows "step c = Inl IndexError"
proof -
  have len: "length (ram c) = 256" using assms(1) by (simp add: cpu_wf_def)
  consider "pc c < -256" | "256 \<le> pc c" | "pc c = 254" | "pc c = 255"
    using assms(2) by arith
  then show ?thesis
  proof cases
    case 1
    then show ?thesis by (simp add: step_def len py_get_out_of_range)
  next
    case 2
    then show ?thesis by (simp add: step_def len py_get_out_of_range)
  next
    case 3
    then show ?thesis by (simp add: step_def ram_read_def len py_get_nonneg_Inr py_get_out_of_range)
  next
    case 4
    then show ?thesis by (simp add: step_def ram_read_def len py_get_nonneg_Inr py_get_out_of_range)
  qed
qed

section \<open>Handlers: frame and shape\<close>

lemmas handler_defs = exec_ldi_def exec_prn_def exec_mul_def exec_push_def exec_pop_def
  exec_cmp_def exec_jmp_def exec_jeq_def exec_jne_def

text \<open>No handler prints except \<open>PRN\<close>, and every handler keeps the shape of the state.\<close>

lemma dispatch_Next_cpu_wf:
  "dispatch ir a b c = Inr (Next out c') \<Longrightarrow> cpu_wf c \<Longrightarrow> cpu_wf c'"
  by (auto simp: dispatch_def handler_defs cpu_wf_def py_list_simps
           dest: alu_frame ram_write_frame split: if_splits)

lemma step_Next_cpu_wf:
  "step c = Inr (Next out c') \<Longrightarrow> cpu_wf c \<Longrightarrow> cpu_wf c'"
  by (auto simp: step_def dest: dispatch_Next_cpu_wf)

lemma dispatch_Next_output:
  "dispatch ir a b c = Inr (Next out c') \<Longrightarrow>
     (ir = prn \<and> py_get (reg c) a = Inr (hd out) \<and> length out = 1) \<or> (ir \<noteq> prn \<and> out = [])"
  by (auto simp: dispatch_def handler_defs opcode_defs split: if_splits)

text \<open>
  Where the next \<open>pc\<close> comes from. The LS-8 encoding \<open>AABCDDDD\<close> keeps the number
  of operands in the top two bits (\<open>drop_bit 6 ir\<close>) and marks the instructions that
  set the program counter with bit 4.
\<close>

lemma dispatch_pc_advance:
  "dispatch ir a b c = Inr (Next out c') \<Longrightarrow>
     pc c' = pc c + 1 + drop_bit 6 ir \<or> (bit ir 4 \<and> pc c' \<in> set (reg c))"
  by (auto simp: dispatch_def handler_defs opcode_defs py_list_simps
           dest: alu_frame ram_write_frame split: if_splits)

lemma dispatch_sp_change:
  "dispatch ir a b c = Inr (Next out c') \<Longrightarrow>
     sp c' = sp c + (if ir = push then -1 else if ir = pop then 1 else 0)"
  by (auto simp: dispatch_def handler_defs opcode_defs
           dest: alu_frame ram_write_frame split: if_splits)

section \<open>Properties of one step\<close>

text \<open>
  C1. Fetch-advance law: after any step that continues, the program counter is the
  old one advanced by one plus the operand count the opcode encodes in its top two bits,
  or, only for an opcode with the set-PC bit 4 (\<open>JMP\<close>, \<open>JEQ\<close>, \<open>JNE\<close>), a value
  taken from the register file.
\<close>

theorem step_pc_advance:
  assumes "step c = Inr (Next out c')" and "py_get (ram c) (pc c) = Inr ir"
  shows "pc c' = pc c + 1 + drop_bit 6 ir \<or> (bit ir 4 \<and> pc c' \<in> set (reg c))"
  using assms by (auto simp: step_def dest: dispatch_pc_advance)

text \<open>
  C2. Push/pop inverse: on a well-formed state whose stack pointer is a valid memory
  index, \<open>PUSH r\<close> followed by \<open>POP r'\<close> (any valid register \<open>r'\<close>) both succeed,
  leave in \<open>r'\<close> the value \<open>r\<close> held, restore the stack pointer and advance the
  program counter by four.
\<close>

theorem push_pop_inverse:
  assumes "cpu_wf c" "py_get (reg c) r = Inr v" "-256 \<le> sp c" "sp c < 256" "-8 \<le> r'" "r' < 8"
  shows "\<exists>c1 c2. exec_push r c = Inr (Next [] c1) \<and> exec_pop r' c1 = Inr (Next [] c2)
           \<and> py_get (reg c2) r' = Inr v \<and> sp c2 = sp c \<and> pc c2 = pc c + 4"
proof -
  from assms(1) have len: "length (ram c) = 256" "length (reg c) = 8"
    by (simp_all add: cpu_wf_def)
  obtain m where m: "py_set (ram c) (sp c) v = Inr m"
    using assms(3,4) len py_set_in_range [of "ram c" "sp c" v] by auto
  let ?c1 = "c\<lparr>ram := m, pc := pc c + 2, sp := sp c - 1\<rparr>"
  have push: "exec_push r c = Inr (Next [] ?c1)"
    using assms(2) m by (simp add: exec_push_def ram_write_def)
  have rd: "ram_read ?c1 (sp ?c1 + 1) = Inr v"
    using m by (simp add: ram_read_def py_get_py_set_same)
  obtain rs where rs: "py_set (reg c) r' v = Inr rs"
    using assms(5,6) len py_set_in_range [of "reg c" "r'" v] by auto
  let ?c2 = "?c1\<lparr>reg := rs, sp := sp ?c1 + 1, pc := pc ?c1 + 2\<rparr>"
  have pop: "exec_pop r' ?c1 = Inr (Next [] ?c2)"
    using rd rs by (simp add: exec_pop_def)
  have "py_get (reg ?c2) r' = Inr v"
    using rs by (simp add: py_get_py_set_same)
  with push pop show ?thesis by fastforce
qed

text \<open>
  C4. \<open>JEQ r\<close> jumps to the address held in \<open>r\<close> exactly when the flag register holds
  the encoding of \<open>EQUAL\<close>, and otherwise advances the program counter by two; it
  changes nothing else and prints nothing.
\<close>

theorem step_jeq:
  assumes "cpu_wf c" "0 \<le> pc c" "pc c \<le> 253" "ram c ! nat (pc c) = jeq"
    "py_get (reg c) (ram c ! nat (pc c + 1)) = Inr v"
  shows "step c = Inr (Next [] (c\<lparr>pc := if fl c = flag_bits EQUAL then v else pc c + 2\<rparr>))"
  using assms by (simp add: step_fetch dispatch_def opcode_defs exec_jeq_def)

text \<open>
  C5. \<open>JNE r\<close> jumps to the address held in \<open>r\<close> exactly when the flag register does
  not hold the encoding of \<open>EQUAL\<close> (also before any \<open>CMP\<close>, when it is zero),
  and otherwise advances the program counter by two.
\<close>

theorem step_jne:
  assumes "cpu_wf c" "0 \<le> pc c" "pc c \<le> 253" "ram c ! nat (pc c) = jne"
    "py_get (reg c) (ram c ! nat (pc c + 1)) = Inr v"
  shows "step c = Inr (Next [] (c\<lparr>pc := if fl c \<noteq> flag_bits EQUAL then v else pc c + 2\<rparr>))"
  using assms by (simp add: step_fetch dispatch_def opcode_defs exec_jne_def)

text \<open>
  C8. Invalid opcode: a fetched word that is none of the ten dispatched opcodes ends the
  run with the \<open>InvalidInstruction\<close> fault naming that word, before any handler runs.
\<close>

theorem step_invalid_opcode:
  assumes "cpu_wf c" "0 \<le> pc c" "pc c \<le> 253"
    "ram c ! nat (pc c) \<notin> {ldi, prn, mul, push, pop, cmp, jmp, jeq, jne, hlt}"
  shows "step c = Inl (InvalidInstruction (ram c ! nat (pc c)))"
  using assms by (simp add: step_fetch dispatch_def)

text \<open>
  C10. The \<open>ADD\<close> opcode \<open>0b10100000\<close> is declared in \<open>run\<close> and listed by the
  specification, but no branch of the dispatch tests it: fetching it is an invalid
  instruction, although \<open>alu\<close> implements \<open>ADD\<close>.
\<close>

theorem step_add_opcode_invalid:
  assumes "cpu_wf c" "0 \<le> pc c" "pc c \<le> 253" "ram c ! nat (pc c) = add"
  shows "step c = Inl (InvalidInstruction 0b10100000)"
  using assms by (simp add: step_fetch dispatch_def opcode_defs)

text \<open>
  C11. The operands are fetched before the opcode is examined, so an instruction in one
  of the last two memory cells faults with \<open>IndexError\<close>, even \<open>HLT\<close>, which has no
  operands.
\<close>

theorem step_hlt_last_cells_faults:
  assumes "cpu_wf c" "pc c \<in> {254, 255}" "ram c ! nat (pc c) = hlt"
  shows "step c = Inl IndexError"
  using assms step_fetch_IndexError by auto

text \<open>
  C13. The stack pointer is state of its own: only \<open>PUSH\<close> (by \<open>-1\<close>) and
  \<open>POP\<close> (by \<open>+1\<close>) change it. In particular writing register 7, whose initial
  value it copied, leaves it alone.
\<close>

theorem step_sp_change:
  assumes "step c = Inr (Next out c')" and "py_get (ram c) (pc c) = Inr ir"
  shows "sp c' = sp c + (if ir = push then -1 else if ir = pop then 1 else 0)"
  using assms by (auto simp: step_def dest: dispatch_sp_change)

text \<open>
  C20. \<open>PRN r\<close> prints the value of register \<open>r\<close>, advances the program counter by
  two and changes nothing else.
\<close>

theorem step_prn:
  assumes "cpu_wf c" "0 \<le> pc c" "pc c \<le> 253" "ram c ! nat (pc c) = prn"
    "py_get (reg c) (ram c ! nat (pc c + 1)) = Inr v"
  shows "step c = Inr (Next [v] (c\<lparr>pc := pc c + 2\<rparr>))"
  using assms by (simp add: step_fetch dispatch_def opcode_defs exec_prn_def)

end
