(* ===== verification/Run.thy ===== *)
theory Run
  imports Execute
begin

text \<open>
  The \<open>while True\<close> loop of \<open>CPU.run\<close> (\<open>src/cpu.py\<close>, lines 109--150). A program
  may loop for ever (\<open>JMP\<close> to itself), so the loop is \<open>run\<close>, a
  \<^theory_text>\<open>partial_function (option)\<close>: \<open>None\<close> is a run that never ends, \<open>Some (Inr c, out)\<close>
  a run that reached \<open>HLT\<close> in state \<open>c\<close> after printing \<open>out\<close>, and
  \<open>Some (Inl f, out)\<close> a run that died with fault \<open>f\<close> (exit status 1) after printing
  \<open>out\<close>. \<open>exec\<close> is the same loop with a fuel bound; \<open>steps\<close> is the small-step
  relation (the trace of continuing steps with the values they print).

  The lemmas unfold the loop one step and relate \<open>run\<close> to \<open>exec\<close>: fuel that
  suffices gives the result of \<open>run\<close>, and a run that returns needs only finite
  fuel. Termination and divergence of particular runs are in \<open>Progress\<close>.
\<close>

type_synonym outcome = "(fault + cpu) \<times> int list"

partial_function (option) run :: "cpu \<Rightarrow> int list \<Rightarrow> outcome option" where
  "run c out =
     (case step c of
        Inl f \<Rightarrow> Some (Inl f, out)
      | Inr Halt \<Rightarrow> Some (Inr c, out)
      | Inr (Next p c') \<Rightarrow> run c' (out @ p))"

fun exec :: "nat \<Rightarrow> cpu \<Rightarrow> int list \<Rightarrow> outcome option" where
  "exec 0 c out = None"
| "exec (Suc n) c out =
     (case step c of
        Inl f \<Rightarrow> Some (Inl f, out)
      | Inr Halt \<Rightarrow> Some (Inr c, out)
      | Inr (Next p c') \<Rightarrow> exec n c' (out @ p))"

inductive steps :: "cpu \<Rightarrow> int list \<Rightarrow> cpu \<Rightarrow> bool" where
  steps_refl: "steps c [] c"
| steps_step: "step c = Inr (Next p c') \<Longrightarrow> steps c' out c'' \<Longrightarrow> steps c (p @ out) c''"

section \<open>Unfolding the loop\<close>

lemma run_Next: "step c = Inr (Next p c') \<Longrightarrow> run c out = run c' (out @ p)"
  by (simp add: run.simps)

lemma run_Halt: "step c = Inr Halt \<Longrightarrow> run c out = Some (Inr c, out)"
  by (simp add: run.simps)

lemma run_fault: "step c = Inl f \<Longrightarrow> run c out = Some (Inl f, out)"
  by (simp add: run.simps)

section \<open>Fuel\<close>

lemma exec_run: "exec n c out = Some r \<Longrightarrow> run c out = Some r"
proof (induction n arbitrary: c out)
  case 0
  then show ?case by simp
next
  case (Suc n)
  show ?case
  proof (cases "step c")
    case (Inl e)
    then show ?thesis using Suc.prems by (simp add: run_fault)
  next
    case (Inr s)
    then show ?thesis
    proof (cases s)
      case Halt
      then show ?thesis using Inr Suc.prems by (simp add: run_Halt)
    next
      case (Next p c')
      then show ?thesis using Inr Suc.prems Suc.IH by (simp add: run_Next)
    qed
  qed
qed

lemma run_exec:
  assumes "run c out = Some r"
  shows "\<exists>n. exec n c out = Some r"
proof (rule run.raw_induct [where P = "\<lambda>c out r. \<exists>n. exec n c out = Some r", OF _ assms])
  fix run' :: "cpu \<Rightarrow> int list \<Rightarrow> outcome option" and c out r
  assume IH: "\<And>c out r. run' c out = Some r \<Longrightarrow> \<exists>n. exec n c out = Some r"
    and eq: "(case step c of
        Inl f \<Rightarrow> Some (Inl f, out)
      | Inr Halt \<Rightarrow> Some (Inr c, out)
      | Inr (Next p c') \<Rightarrow> run' c' (out @ p)) = Some r"
  show "\<exists>n. exec n c out = Some r"
  proof (cases "step c")
    case (Inl e)
    then have "exec (Suc 0) c out = Some r" using eq by simp
    then show ?thesis ..
  next
    case (Inr s)
    show ?thesis
    proof (cases s)
      case Halt
      then have "exec (Suc 0) c out = Some r" using Inr eq by simp
      then show ?thesis ..
    next
      case (Next p c')
      with Inr eq have "run' c' (out @ p) = Some r" by simp
      then obtain n where "exec n c' (out @ p) = Some r" using IH by blast
      then have "exec (Suc n) c out = Some r" using Inr Next by simp
      then show ?thesis ..
    qed
  qed
qed

end
