(* ===== verification/Loader.thy ===== *)
theory Loader
  imports Machine
begin

text \<open>
  \<open>CPU.load\<close> of \<open>src/cpu.py\<close> (lines 22--54). Opening the file named by
  \<open>sys.argv[1]\<close> is I/O and is not modelled: the model starts from the list of lines
  that \<open>for line in f\<close> yields (each with its line terminator). For each line,
  \<open>parse_line\<close> is lines 31--38: strip the text after \<open>" #"\<close> if the line has a
  \<open>#\<close>, strip white space, and keep the line only if what remains is numeric, reading
  it with \<open>int(s, 2)\<close>, which raises \<open>ValueError\<close> on a digit other than 0 or 1.
  \<open>parse_lines\<close> is the loop that builds \<open>program\<close>, and \<open>load_loop\<close> the loop of
  lines 52--54 that stores \<open>program\<close> from address 0 by plain list assignment.
  Characters are ASCII: \<open>py_isspace\<close> and \<open>py_isdigit\<close> are Python's
  \<open>str.isspace\<close> and \<open>str.isnumeric\<close> on the ASCII range.

  The lemmas show that a line holding the binary digits of \<open>n\<close> and a comment reads back
  as \<open>n\<close>, how lines without a number are skipped, and that loading stores the program
  as a prefix of memory (or raises \<open>IndexError\<close> for more than 256 words).
\<close>

definition py_isspace :: "char \<Rightarrow> bool" where
  "py_isspace ch \<longleftrightarrow> of_char ch \<in> ({9..13} \<union> {28..32} :: nat set)"

definition py_strip :: "string \<Rightarrow> string" where
  "py_strip s = rev (dropWhile py_isspace (rev (dropWhile py_isspace s)))"

definition py_isdigit :: "char \<Rightarrow> bool" where
  "py_isdigit ch \<longleftrightarrow> of_char ch \<in> ({48..57} :: nat set)"

definition py_isnumeric :: "string \<Rightarrow> bool" where
  "py_isnumeric s \<longleftrightarrow> s \<noteq> [] \<and> list_all py_isdigit s"

text \<open>\<open>s.split(sep)[0]\<close>: the text before the first occurrence of \<open>sep\<close>.\<close>

fun split_head :: "string \<Rightarrow> string \<Rightarrow> string" where
  "split_head sep [] = []"
| "split_head sep (ch # cs) =
     (if take (length sep) (ch # cs) = sep then [] else ch # split_head sep cs)"

text \<open>\<open>int(s, 2)\<close> on a string of decimal digits, \<open>None\<close> for the \<open>ValueError\<close>.\<close>

fun int_base2 :: "int \<Rightarrow> string \<Rightarrow> int option" where
  "int_base2 acc [] = Some acc"
| "int_base2 acc (d # ds) =
     (if d = CHR ''0'' then int_base2 (2 * acc) ds
      else if d = CHR ''1'' then int_base2 (2 * acc + 1) ds
      else None)"

definition parse_line :: "string \<Rightarrow> int option result" where
  "parse_line line =
     (if 0 < length line then
        (let binary_string =
               (if CHR ''#'' \<notin> set line then py_strip line
                else py_strip (split_head '' #'' line))
         in if py_isnumeric binary_string then
              (case int_base2 0 binary_string of
                 None \<Rightarrow> Inl ValueError
               | Some integer_value \<Rightarrow> Inr (Some integer_value))
            else Inr None)
      else Inr None)"

fun parse_lines :: "string list \<Rightarrow> int list result" where
  "parse_lines [] = Inr []"
| "parse_lines (line # lines) =
     bind_sum (parse_line line) (\<lambda>v.
     bind_sum (parse_lines lines) (\<lambda>program.
       Inr (case v of None \<Rightarrow> program | Some w \<Rightarrow> w # program)))"

fun load_loop :: "int list \<Rightarrow> int \<Rightarrow> cpu \<Rightarrow> cpu result" where
  "load_loop [] address c = Inr c"
| "load_loop (instruction # program) address c =
     bind_sum (py_set (ram c) address instruction) (\<lambda>m.
       load_loop program (address + 1) (c\<lparr>ram := m\<rparr>))"

definition load :: "string list \<Rightarrow> cpu \<Rightarrow> cpu result" where
  "load lines c = bind_sum (parse_lines lines) (\<lambda>program. load_loop program 0 c)"

text \<open>The binary digits of a number, most significant first, as a test input.\<close>

fun bin_digits :: "nat \<Rightarrow> string" where
  "bin_digits n =
     (if n < 2 then [if n = 0 then CHR ''0'' else CHR ''1'']
      else bin_digits (n div 2) @ [if n mod 2 = 0 then CHR ''0'' else CHR ''1''])"

section \<open>Lemmas\<close>

declare bin_digits.simps [simp del]

lemma int_base2_append:
  "int_base2 acc (xs @ ys) = (case int_base2 acc xs of None \<Rightarrow> None | Some a \<Rightarrow> int_base2 a ys)"
  by (induction acc xs rule: int_base2.induct) auto

lemma int_of_nat_halves: "int n = 2 * int (n div 2) + int (n mod 2)"
  by (metis div_mult_mod_eq mult.commute of_nat_add of_nat_mult of_nat_numeral)

lemma int_base2_bin_digits:
  "int_base2 acc (bin_digits n) = Some (acc * 2 ^ length (bin_digits n) + int n)"
proof (induction n arbitrary: acc rule: bin_digits.induct)
  case (1 n)
  show ?case
  proof (cases "n < 2")
    case True
    then show ?thesis by (auto simp: bin_digits.simps)
  next
    case False
    have "n mod 2 = 0 \<or> n mod 2 = 1" by arith
    then show ?thesis
      using False "1.IH" [of acc] int_of_nat_halves [of n]
      by (auto simp: bin_digits.simps [of n] int_base2_append algebra_simps)
  qed
qed

lemma bin_digits_nonempty: "bin_digits n \<noteq> []"
  by (subst bin_digits.simps) simp

lemma bin_digits_digits: "set (bin_digits n) \<subseteq> {CHR ''0'', CHR ''1''}"
proof (induction n rule: bin_digits.induct)
  case (1 n)
  show ?case
  proof (cases "n < 2")
    case True
    then show ?thesis by (simp add: bin_digits.simps [of n])
  next
    case False
    then show ?thesis using "1.IH" by (simp add: bin_digits.simps [of n])
  qed
qed

lemma bin_digits_chars:
  "CHR ''#'' \<notin> set (bin_digits n)" "CHR '' '' \<notin> set (bin_digits n)"
  using bin_digits_digits [of n] by auto

lemma bin_digits_numeric: "py_isnumeric (bin_digits n)"
  using bin_digits_digits [of n] bin_digits_nonempty [of n]
  by (auto simp: py_isnumeric_def py_isdigit_def list_all_iff)

lemma py_strip_no_space:
  assumes "\<And>ch. ch \<in> set xs \<Longrightarrow> \<not> py_isspace ch"
  shows "py_strip xs = xs"
proof -
  have "dropWhile py_isspace ys = ys" if "set ys \<subseteq> set xs" for ys
    using that assms by (cases ys) auto
  then show ?thesis by (simp add: py_strip_def)
qed

lemma strip_bin_digits: "py_strip (bin_digits n) = bin_digits n"
  using bin_digits_digits [of n] by (intro py_strip_no_space) (auto simp: py_isspace_def)

lemma py_strip_trailing_space:
  assumes "xs \<noteq> []" "\<And>ch. ch \<in> set xs \<Longrightarrow> \<not> py_isspace ch" "\<And>ch. ch \<in> set ws \<Longrightarrow> py_isspace ch"
  shows "py_strip (xs @ ws) = xs"
proof -
  have "dropWhile py_isspace (xs @ ws) = xs @ ws"
    using assms(1,2) by (cases xs) auto
  moreover have "dropWhile py_isspace (rev ws @ rev xs) = rev xs"
  proof -
    obtain a l where al: "rev xs = a # l" using assms(1) by (cases "rev xs") auto
    then have "a \<in> set xs" by (metis list.set_intros(1) set_rev)
    then have "dropWhile py_isspace (rev xs) = rev xs" using al assms(2) by simp
    moreover have "dropWhile py_isspace (rev ws @ rev xs) = dropWhile py_isspace (rev xs)"
      by (rule dropWhile_append2) (simp add: assms(3))
    ultimately show ?thesis by simp
  qed
  ultimately show ?thesis
    using assms(1,2) by (cases xs rule: rev_cases) (simp_all add: py_strip_def)
qed

lemma split_head_no_space:
  "CHR '' '' \<notin> set xs \<Longrightarrow> split_head '' #'' (xs @ '' #'' @ zs) = xs"
  by (induction xs) auto

lemma split_head_append_no_space:
  "CHR '' '' \<notin> set xs \<Longrightarrow> split_head '' #'' (xs @ ys) = xs @ split_head '' #'' ys"
  by (induction xs) auto

lemma in_dropWhile: "x \<in> set s \<Longrightarrow> \<not> P x \<Longrightarrow> x \<in> set (dropWhile P s)"
  by (induction s) auto

lemma load_loop_prefix:
  assumes "0 \<le> address" "nat address + length program \<le> length (ram c)"
  shows "load_loop program address c =
           Inr (c\<lparr>ram := take (nat address) (ram c) @ program @ drop (nat address + length program) (ram c)\<rparr>)"
  using assms
proof (induction program arbitrary: address c)
  case Nil
  then show ?case by simp
next
  case (Cons w program)
  let ?m = "(ram c)[nat address := w]"
  have set: "py_set (ram c) address w = Inr ?m"
    using Cons.prems by (simp add: py_set_nonneg_Inr)
  have "load_loop program (address + 1) (c\<lparr>ram := ?m\<rparr>) =
        Inr (c\<lparr>ram := take (nat (address + 1)) ?m @ program @ drop (nat (address + 1) + length program) ?m\<rparr>)"
    using Cons.prems Cons.IH [of "address + 1" "c\<lparr>ram := ?m\<rparr>"] by simp
  moreover have "take (nat (address + 1)) ?m = take (nat address) (ram c) @ [w]"
    using Cons.prems by (simp add: nat_add_distrib take_Suc_conv_app_nth)
  moreover have "drop (nat (address + 1) + length program) ?m = drop (nat address + length (w # program)) (ram c)"
    using Cons.prems by (simp add: nat_add_distrib)
  ultimately show ?case using set by simp
qed

lemma load_loop_IndexError:
  assumes "0 \<le> address" "nat address \<le> length (ram c)" "length (ram c) < nat address + length program"
  shows "load_loop program address c = Inl IndexError"
  using assms
proof (induction program arbitrary: address c)
  case Nil
  then show ?case by simp
next
  case (Cons w program)
  show ?case
  proof (cases "address < int (length (ram c))")
    case True
    then have "py_set (ram c) address w = Inr ((ram c)[nat address := w])"
      using Cons.prems by (simp add: py_set_nonneg_Inr)
    moreover have "load_loop program (address + 1) (c\<lparr>ram := (ram c)[nat address := w]\<rparr>) = Inl IndexError"
      using True Cons.prems Cons.IH [of "address + 1" "c\<lparr>ram := (ram c)[nat address := w]\<rparr>"]
      by (simp add: nat_add_distrib)
    ultimately show ?thesis by simp
  next
    case False
    then have "py_set (ram c) address w = Inl IndexError"
      using Cons.prems by (simp add: py_set_def py_index_def)
    then show ?thesis by simp
  qed
qed

lemma int_base2_None_iff:
  "int_base2 acc s = None \<longleftrightarrow> \<not> list_all (\<lambda>ch. ch = CHR ''0'' \<or> ch = CHR ''1'') s"
  by (induction acc s rule: int_base2.induct) auto

lemma numeric_no_space: "py_isnumeric s \<Longrightarrow> ch \<in> set s \<Longrightarrow> \<not> py_isspace ch \<and> ch \<noteq> CHR ''#''"
  by (auto simp: py_isnumeric_def py_isdigit_def py_isspace_def list_all_iff)

lemma parse_line_bin_digits_LF: "parse_line (bin_digits n @ [CHR 0x0A]) = Inr (Some (int n))"
proof -
  have "py_strip (bin_digits n @ [CHR 0x0A]) = bin_digits n"
    using bin_digits_digits [of n] bin_digits_nonempty [of n]
    by (intro py_strip_trailing_space) (auto simp: py_isspace_def)
  then show ?thesis
    using bin_digits_chars(1) [of n]
    by (simp add: parse_line_def bin_digits_numeric int_base2_bin_digits)
qed

section \<open>Properties of the loader\<close>

text \<open>
  C14. Parse round trip: a line holding the binary digits of \<open>n\<close>, followed either by
  \<open>" #"\<close> and any comment or by a line break, is read back as the number \<open>n\<close>.
\<close>

theorem parse_line_roundtrip:
  "parse_line (bin_digits n @ '' #'' @ comment) = Inr (Some (int n)) \<and>
   parse_line (bin_digits n @ [CHR 0x0A]) = Inr (Some (int n))"
proof
  have "split_head '' #'' (bin_digits n @ '' #'' @ comment) = bin_digits n"
    using bin_digits_chars(2) by (rule split_head_no_space)
  then show "parse_line (bin_digits n @ '' #'' @ comment) = Inr (Some (int n))"
    by (simp add: parse_line_def strip_bin_digits bin_digits_numeric int_base2_bin_digits)
next
  show "parse_line (bin_digits n @ [CHR 0x0A]) = Inr (Some (int n))"
    by (rule parse_line_bin_digits_LF)
qed

text \<open>
  C15. The comment separator is \<open>" #"\<close> with a space: a line holding the binary
  digits of any \<open>n\<close> followed directly by \<open>#\<close> and a comment (that contains no
  \<open>" #"\<close> of its own) is not numeric after stripping and is silently dropped.
\<close>

theorem parse_line_comment_needs_space:
  assumes "split_head '' #'' comment = comment"
  shows "parse_line (bin_digits n @ CHR ''#'' # comment) = Inr None"
proof -
  let ?l = "bin_digits n @ CHR ''#'' # comment"
  have "split_head '' #'' ?l = ?l"
    using split_head_append_no_space [OF bin_digits_chars(2)] assms by simp
  moreover have "CHR ''#'' \<in> set (py_strip ?l)"
    unfolding py_strip_def by (simp add: in_dropWhile py_isspace_def)
  then have "\<not> py_isnumeric (py_strip ?l)" using numeric_no_space by blast
  ultimately show ?thesis by (simp add: parse_line_def)
qed

text \<open>
  C16. A line that is numeric after stripping but holds a digit other than 0 and 1 makes
  \<open>int(s, 2)\<close> raise \<open>ValueError\<close>, which aborts the whole load.
\<close>

theorem parse_line_ValueError:
  assumes "py_isnumeric s" "\<not> list_all (\<lambda>ch. ch = CHR ''0'' \<or> ch = CHR ''1'') s"
  shows "parse_line s = Inl ValueError"
proof -
  have "py_strip s = s" using assms(1) numeric_no_space by (blast intro: py_strip_no_space)
  moreover have "CHR ''#'' \<notin> set s" using assms(1) numeric_no_space by blast
  moreover have "0 < length s" using assms(1) by (simp add: py_isnumeric_def)
  moreover have "int_base2 0 s = None" using assms(2) by (simp add: int_base2_None_iff)
  ultimately show ?thesis using assms(1) by (simp add: parse_line_def)
qed

text \<open>
  C17. Loading a program of at most 256 words into a fresh machine succeeds and leaves
  the program at addresses \<open>0 .. length - 1\<close> with the rest of memory still zero.
\<close>

theorem load_loop_init:
  assumes "length program \<le> 256"
  shows "load_loop program 0 cpu_init =
           Inr (cpu_init\<lparr>ram := program @ replicate (256 - length program) 0\<rparr>)"
  using assms load_loop_prefix [of 0 program cpu_init] by simp

text \<open>
  C18. A program of more than 256 words does not fit: the store at address 256 raises
  \<open>IndexError\<close>.
\<close>

theorem load_loop_too_long:
  assumes "256 < length program"
  shows "load_loop program 0 cpu_init = Inl IndexError"
  using assms load_loop_IndexError [of 0 cpu_init program] by simp

end
