(* ===== verification/Decode.thy ===== *)
theory Decode
  imports Execute
begin

text \<open>
  The specification's view of the instruction set (its sections 3, 4.1-4.5): a
  \<open>datatype\<close> of the eleven instructions with their encodings (\<open>opcode_of\<close>), operand
  counts and the set-PC property, a decoder \<open>decode\<close>, and \<open>spec_exec\<close>, the table's
  semantics: an instruction that does not set the program counter runs its effect and
  advances \<open>pc\<close> by one plus its operand count. The specification's machine is not
  Python's: its accessors \<open>spec_get\<close>/\<open>spec_set\<close> make every index outside
  \<open>[0, n)\<close> fatal (sections 4.1 and 7), and its ALU \<open>spec_alu\<close> wraps \<open>ADD\<close> and
  \<open>MUL\<close> modulo the cell width 256 (sections 4.2, 4.3 and 8.5). The lemmas show that
  the dispatch chain of \<open>CPU.run\<close> implements the table wherever the specification's
  step succeeds and a product fits in a cell, and that on \<open>MUL\<close> the two agree exactly
  when it does.
\<close>

datatype instr = LDI | PRN | ADD | MUL | CMP | PUSH | POP | JMP | JEQ | JNE | HLT

fun opcode_of :: "instr \<Rightarrow> int" where
  "opcode_of LDI = ldi" | "opcode_of PRN = prn" | "opcode_of ADD = add" | "opcode_of MUL = mul"
| "opcode_of CMP = cmp" | "opcode_of PUSH = push" | "opcode_of POP = pop" | "opcode_of JMP = jmp"
| "opcode_of JEQ = jeq" | "opcode_of JNE = jne" | "opcode_of HLT = hlt"

fun operand_count :: "instr \<Rightarrow> nat" where
  "operand_count LDI = 2" | "operand_count PRN = 1" | "operand_count ADD = 2"
| "operand_count MUL = 2" | "operand_count CMP = 2" | "operand_count PUSH = 1"
| "operand_count POP = 1" | "operand_count JMP = 1" | "operand_count JEQ = 1"
| "operand_count JNE = 1" | "operand_count HLT = 0"

fun sets_pc :: "instr \<Rightarrow> bool" where
  "sets_pc JMP = True" | "sets_pc JEQ = True" | "sets_pc JNE = True" | "sets_pc _ = False"

definition decode :: "int \<Rightarrow> instr option" where
  "decode ir =
     (if ir = ldi then Some LDI else if ir = prn then Some PRN else if ir = add then Some ADD
      else if ir = mul then Some MUL else if ir = cmp then Some CMP
      else if ir = push then Some PUSH else if ir = pop then Some POP
      else if ir = jmp then Some JMP else if ir = jeq then Some JEQ
      else if ir = jne then Some JNE else if ir = hlt then Some HLT else None)"

text \<open>Storage access in the specification: an index outside \<open>[0, n)\<close> is fatal.\<close>

definition spec_get :: "'a list \<Rightarrow> int \<Rightarrow> 'a result" where
  "spec_get xs i = (if 0 \<le> i \<and> i < int (length xs) then Inr (xs ! nat i) else Inl IndexError)"

definition spec_set :: "'a list \<Rightarrow> int \<Rightarrow> 'a \<Rightarrow> 'a list result" where
  "spec_set xs i v = (if 0 \<le> i \<and> i < int (length xs) then Inr (xs[nat i := v]) else Inl IndexError)"

text \<open>The specification's ALU: arithmetic wraps modulo the cell width.\<close>

definition wrap :: "int \<Rightarrow> int" where
  "wrap v = v mod 256"

fun spec_alu :: "instr \<Rightarrow> int \<Rightarrow> int \<Rightarrow> cpu \<Rightarrow> cpu result" where
  "spec_alu ADD a b c =
     bind_sum (spec_get (reg c) a) (\<lambda>x. bind_sum (spec_get (reg c) b) (\<lambda>y.
     bind_sum (spec_set (reg c) a (wrap (x + y))) (\<lambda>r. Inr (c\<lparr>reg := r\<rparr>))))"
| "spec_alu MUL a b c =
     bind_sum (spec_get (reg c) a) (\<lambda>x. bind_sum (spec_get (reg c) b) (\<lambda>y.
     bind_sum (spec_set (reg c) a (wrap (x * y))) (\<lambda>r. Inr (c\<lparr>reg := r\<rparr>))))"
| "spec_alu CMP a b c =
     bind_sum (spec_get (reg c) a) (\<lambda>x. bind_sum (spec_get (reg c) b) (\<lambda>y.
       Inr (c\<lparr>fl := flag_bits (compare x y)\<rparr>)))"
| "spec_alu _ a b c = Inl UnsupportedAluOp"

text \<open>The effect of an instruction on the state other than \<open>pc\<close>, and what it prints.\<close>

fun spec_effect :: "instr \<Rightarrow> int \<Rightarrow> int \<Rightarrow> cpu \<Rightarrow> (int list \<times> cpu) result" where
  "spec_effect LDI a b c = bind_sum (spec_set (reg c) a b) (\<lambda>r. Inr ([], c\<lparr>reg := r\<rparr>))"
| "spec_effect PRN a b c = bind_sum (spec_get (reg c) a) (\<lambda>v. Inr ([v], c))"
| "spec_effect ADD a b c = bind_sum (spec_alu ADD a b c) (\<lambda>c'. Inr ([], c'))"
| "spec_effect MUL a b c = bind_sum (spec_alu MUL a b c) (\<lambda>c'. Inr ([], c'))"
| "spec_effect CMP a b c = bind_sum (spec_alu CMP a b c) (\<lambda>c'. Inr ([], c'))"
| "spec_effect PUSH a b c =
     bind_sum (spec_get (reg c) a) (\<lambda>v.
     bind_sum (spec_set (ram c) (sp c) v) (\<lambda>m. Inr ([], c\<lparr>ram := m, sp := sp c - 1\<rparr>)))"
| "spec_effect POP a b c =
     bind_sum (spec_get (ram c) (sp c + 1)) (\<lambda>v.
     bind_sum (spec_set (reg c) a v) (\<lambda>r. Inr ([], c\<lparr>reg := r, sp := sp c + 1\<rparr>)))"
| "spec_effect _ a b c = Inr ([], c)"

fun taken :: "instr \<Rightarrow> cpu \<Rightarrow> bool" where
  "taken JMP c = True"
| "taken JEQ c = (fl c = flag_bits EQUAL)"
| "taken JNE c = (fl c \<noteq> flag_bits EQUAL)"
| "taken _ c = False"

definition spec_exec :: "instr \<Rightarrow> int \<Rightarrow> int \<Rightarrow> cpu \<Rightarrow> step_result result" where
  "spec_exec i a b c =
     (if i = HLT then Inr Halt
      else if sets_pc i \<and> taken i c
      then bind_sum (spec_get (reg c) a) (\<lambda>v. Inr (Next [] (c\<lparr>pc := v\<rparr>)))
      else bind_sum (spec_effect i a b c) (\<lambda>(out, c').
             Inr (Next out (c'\<lparr>pc := pc c + 1 + int (operand_count i)\<rparr>))))"

text \<open>The condition under which a \<open>MUL\<close> of the specification does not wrap: the
  product of the two registers lies in a cell.\<close>

definition mul_fits :: "instr \<Rightarrow> int \<Rightarrow> int \<Rightarrow> cpu \<Rightarrow> bool" where
  "mul_fits i a b c \<longleftrightarrow> i \<noteq> MUL \<or>
     (case (spec_get (reg c) a, spec_get (reg c) b) of
        (Inr x, Inr y) \<Rightarrow> 0 \<le> x * y \<and> x * y < 256
      | _ \<Rightarrow> True)"

section \<open>Lemmas\<close>

lemma decode_opcode_of: "decode (opcode_of i) = Some i"
  by (cases i) (simp_all add: decode_def opcode_defs)

lemma decode_Some: "decode ir = Some i \<Longrightarrow> ir = opcode_of i"
  by (auto simp: decode_def opcode_defs split: if_splits)

text \<open>Where the specification's access succeeds, Python's does the same.\<close>

lemma spec_get_Inr: "spec_get xs i = Inr v \<Longrightarrow> py_get xs i = Inr v"
  by (auto simp: spec_get_def py_get_nonneg_Inr split: if_splits)

lemma spec_set_Inr: "spec_set xs i v = Inr ys \<Longrightarrow> py_set xs i v = Inr ys"
  by (auto simp: spec_set_def py_set_nonneg_Inr split: if_splits)

lemma spec_get_Inr_iff:
  "spec_get xs i = Inr v \<longleftrightarrow> 0 \<le> i \<and> i < int (length xs) \<and> v = xs ! nat i"
  by (auto simp: spec_get_def)

lemma spec_set_Inr_iff:
  "spec_set xs i v = Inr ys \<longleftrightarrow> 0 \<le> i \<and> i < int (length xs) \<and> ys = xs[nat i := v]"
  by (auto simp: spec_set_def)

lemma wrap_id_iff: "wrap v = v \<longleftrightarrow> 0 \<le> v \<and> v < 256"
  by (auto simp: wrap_def)

lemma wrap_id: "0 \<le> v \<Longrightarrow> v < 256 \<Longrightarrow> wrap v = v"
  by (simp add: wrap_id_iff)

lemmas spec_access_iffs = spec_get_Inr_iff spec_set_Inr_iff

lemma opcode_encoding_fields:
  "operand_count i = nat (drop_bit 6 (opcode_of i)) \<and> (sets_pc i \<longleftrightarrow> bit (opcode_of i) 4)"
  by (cases i) (simp_all add: opcode_defs)

section \<open>The dispatch chain implements the specification\<close>

text \<open>
  C22. Refinement: whenever the specification's table gives a result for a decoded
  instruction other than \<open>ADD\<close> (all its accesses in range) and a \<open>MUL\<close> product fits
  in a cell, the dispatch chain of \<open>CPU.run\<close> gives the same result: the same next
  state, the same output, or the same halt.
\<close>

theorem dispatch_refines_spec:
  assumes "decode ir = Some i" and "i \<noteq> ADD" and "spec_exec i a b c = Inr r" and "mul_fits i a b c"
  shows "dispatch ir a b c = Inr r"
proof -
  have ir: "ir = opcode_of i" using assms(1) by (rule decode_Some)
  show ?thesis
  proof (cases i)
    case MUL
    with assms(3,4) obtain x y where "spec_get (reg c) a = Inr x" "spec_get (reg c) b = Inr y"
      "0 \<le> x * y" "x * y < 256"
      by (auto simp: spec_exec_def mul_fits_def)
    with MUL assms(3) ir show ?thesis
      by (auto simp: spec_exec_def dispatch_def opcode_defs exec_mul_def alu_MUL alu_operands_def
          spec_get_Inr spec_set_Inr wrap_id)
  next
    case CMP
    with assms(3) ir show ?thesis
      by (auto simp: spec_exec_def dispatch_def opcode_defs exec_cmp_def alu_CMP alu_operands_def
          spec_get_Inr)
  next
    case PUSH
    with assms(3) ir show ?thesis
      by (auto simp: spec_exec_def dispatch_def opcode_defs exec_push_def ram_write_def
          spec_get_Inr spec_set_Inr)
  next
    case POP
    with assms(3) ir show ?thesis
      by (auto simp: spec_exec_def dispatch_def opcode_defs exec_pop_def ram_read_def
          spec_get_Inr spec_set_Inr)
  qed (insert assms(2,3) ir, auto simp: spec_exec_def dispatch_def opcode_defs handler_defs
         spec_get_Inr spec_set_Inr)
qed

text \<open>
  C23. The divergence on arithmetic, exactly: for two registers in range, \<open>MUL\<close> of
  the code (which keeps Python's unbounded product) and \<open>MUL\<close> of the specification
  (which wraps modulo 256) give the same step if and only if the product lies in
  \<open>[0, 256)\<close>.
\<close>

theorem mul_agrees_iff_fits:
  assumes "spec_get (reg c) a = Inr x" and "spec_get (reg c) b = Inr y"
  shows "dispatch mul a b c = spec_exec MUL a b c \<longleftrightarrow> 0 \<le> x * y \<and> x * y < 256"
proof -
  have a: "0 \<le> a" "nat a < length (reg c)" and rb: "py_get (reg c) b = Inr y"
    using assms by (auto simp: spec_get_Inr_iff py_get_nonneg_Inr)
  have ra: "py_get (reg c) a = Inr x" using assms(1) by (rule spec_get_Inr)
  have "dispatch mul a b c =
          Inr (Next [] (c\<lparr>reg := (reg c)[nat a := x * y], pc := pc c + 3\<rparr>))"
    using ra rb a by (simp add: dispatch_def opcode_defs exec_mul_def alu_def py_set_nonneg_Inr)
  moreover have "spec_exec MUL a b c =
          Inr (Next [] (c\<lparr>reg := (reg c)[nat a := wrap (x * y)], pc := pc c + 3\<rparr>))"
    using assms a by (simp add: spec_exec_def spec_set_def)
  moreover have "(reg c)[nat a := x * y] = (reg c)[nat a := wrap (x * y)] \<longleftrightarrow> wrap (x * y) = x * y"
    using a by (auto simp: list_eq_iff_nth_eq nth_list_update)
  moreover have "c\<lparr>reg := A, pc := p\<rparr> = c\<lparr>reg := B, pc := p\<rparr> \<longleftrightarrow> A = B" for A B p
    by (metis cpu.select_convs(2) cpu.surjective cpu.update_convs(2,3))
  ultimately show ?thesis by (simp add: wrap_id_iff)
qed

end
