(* ===== verification/Trace.thy ===== *)
theory Trace
  imports Machine
begin

text \<open>
  \<open>CPU.trace\<close> (\<open>src/cpu.py\<close>, lines 74-92), the debugging printer: one line
  \<open>TRACE: pc | fl m0 m1 m2 | r0 ... r7\<close> meant, every field formatted by
  Python's \<open>"%02X"\<close>. \<open>fmt_X\<close> is that conversion (upper-case hexadecimal, zero-padded
  to the width, a minus sign counted in the width), \<open>trace_regs\<close> the loop over
  \<open>range(8)\<close>, and \<open>trace\<close> the whole method (whose three \<open>ram_read\<close>s are
  evaluated before anything is formatted or printed), as
  the text it prints paired with how it ended; \<open>py_percent\<close> is Python's
  \<open>%\<close> on strings. \<open>hex_val\<close> and \<open>split_on\<close> read printed text back.
  The lemmas show that the conversion is invertible, that the register loop
  round-trips, and that the method as written never prints: its format string
  has one conversion fewer than its arguments.
\<close>

section \<open>The conversion \<open>%02X\<close>\<close>

definition hex_char :: "nat \<Rightarrow> char" where
  "hex_char d = (if d < 10 then char_of (48 + d) else char_of (55 + d))"

fun hex_digits :: "nat \<Rightarrow> string" where
  "hex_digits n = (if n < 16 then [hex_char n] else hex_digits (n div 16) @ [hex_char (n mod 16)])"

declare hex_digits.simps [simp del]

definition fmt_X :: "nat \<Rightarrow> int \<Rightarrow> string" where
  "fmt_X width n =
     (let ds = hex_digits (nat \<bar>n\<bar>);
          sgn = (if n < 0 then ''-'' else '''')
      in sgn @ replicate (width - length sgn - length ds) (CHR ''0'') @ ds)"

section \<open>Python's \<open>%\<close> operator on strings\<close>

text \<open>
  \<open>py_percent fmt args\<close> is \<open>fmt % tuple(args)\<close> for the part of Python's
  formatting language the code uses: \<open>%02X\<close> consumes the next argument and
  \<open>%%\<close> prints \<open>%\<close>; a conversion with no argument left, or an argument left
  over at the end, raises \<open>TypeError\<close>. Every other directive after \<open>%\<close> is
  outside the model and raises \<open>ValueError\<close>, as Python does for the characters
  it does not know (conversions such as \<open>%d\<close>, which Python does know, the code
  never uses). Other characters are copied.
\<close>

fun py_percent :: "string \<Rightarrow> int list \<Rightarrow> string result" where
  "py_percent [] args = (if args = [] then Inr [] else Inl TypeError)"
| "py_percent (ch # s) args =
     (if ch = CHR ''%'' then
        (if take 3 s = ''02X'' then
           (case args of
              [] \<Rightarrow> Inl TypeError
            | a # as \<Rightarrow> bind_sum (py_percent (drop 3 s) as) (\<lambda>r. Inr (fmt_X 2 a @ r)))
         else if take 1 s = ''%'' then bind_sum (py_percent (drop 1 s) args) (\<lambda>r. Inr (CHR ''%'' # r))
         else Inl ValueError)
      else bind_sum (py_percent s args) (\<lambda>r. Inr (ch # r)))"

section \<open>The trace method\<close>

text \<open>
  \<open>trace_regs is c\<close> is the loop \<open>for i in range(8): print(" %02X" % self.reg[i],
  end='')\<close> over the indices \<open>is\<close>; \<open>trace c\<close> is the method: the tuple of the
  first \<open>print\<close> (three \<open>ram_read\<close>s) is evaluated, then formatted, then
  printed, then the loop runs and the final \<open>print()\<close> ends the line. The
  result pairs how the method ended with the text it printed.
\<close>

fun trace_regs :: "int list \<Rightarrow> cpu \<Rightarrow> unit result \<times> string" where
  "trace_regs [] c = (Inr (), [])"
| "trace_regs (i # is) c =
     (case bind_sum (py_get (reg c) i) (\<lambda>v. py_percent '' %02X'' [v]) of
        Inl e \<Rightarrow> (Inl e, [])
      | Inr t \<Rightarrow> (let (r, s) = trace_regs is c in (r, t @ s)))"

definition trace :: "cpu \<Rightarrow> unit result \<times> string" where
  "trace c =
     (case bind_sum (ram_read c (pc c)) (\<lambda>m0.
           bind_sum (ram_read c (pc c + 1)) (\<lambda>m1.
           bind_sum (ram_read c (pc c + 2)) (\<lambda>m2.
             py_percent ''TRACE: %02X | %02X %02X %02X |'' [pc c, fl c, m0, m1, m2]))) of
        Inl e \<Rightarrow> (Inl e, [])
      | Inr h \<Rightarrow>
          (case trace_regs [0..7] c of
             (Inl e, s) \<Rightarrow> (Inl e, h @ s)
           | (Inr u, s) \<Rightarrow> (Inr u, h @ s @ [CHR 0x0A])))"

section \<open>Reading the printed text back\<close>

text \<open>
  \<open>hex_val\<close> reads a field printed by \<open>%02X\<close> (an optional minus sign, then
  upper-case hexadecimal digits); \<open>split_on\<close> is \<open>str.split\<close> with an explicit
  separator.
\<close>

definition hex_digit_val :: "char \<Rightarrow> nat option" where
  "hex_digit_val ch =
     (let k = of_char ch :: nat
      in if 48 \<le> k \<and> k < 58 then Some (k - 48)
         else if 65 \<le> k \<and> k < 71 then Some (k - 55) else None)"

fun hex_acc :: "nat \<Rightarrow> string \<Rightarrow> nat option" where
  "hex_acc acc [] = Some acc"
| "hex_acc acc (ch # s) =
     (case hex_digit_val ch of None \<Rightarrow> None | Some d \<Rightarrow> hex_acc (16 * acc + d) s)"

definition hex_val :: "string \<Rightarrow> int option" where
  "hex_val s =
     (if s = [] then None
      else if hd s = CHR ''-'' then
        (if tl s = [] then None else map_option (\<lambda>n. - int n) (hex_acc 0 (tl s)))
      else map_option int (hex_acc 0 s))"

fun split_on :: "char \<Rightarrow> string \<Rightarrow> string list" where
  "split_on d [] = [[]]"
| "split_on d (x # xs) =
     (let ws = split_on d xs in if x = d then [] # ws else (x # hd ws) # tl ws)"

section \<open>Lemmas\<close>

lemma hex_char_val: "d < 16 \<Longrightarrow> hex_digit_val (hex_char d) = Some d"
  by (auto simp: hex_char_def hex_digit_val_def Let_def)

lemma hex_char_not_space: "d < 16 \<Longrightarrow> hex_char d \<noteq> CHR '' ''"
  using hex_char_val [of d] by (auto simp: hex_digit_val_def)

lemma hex_char_not_minus: "d < 16 \<Longrightarrow> hex_char d \<noteq> CHR ''-''"
  using hex_char_val [of d] by (auto simp: hex_digit_val_def)

lemma hex_acc_append:
  "hex_acc acc (xs @ ys) = Option.bind (hex_acc acc xs) (\<lambda>a. hex_acc a ys)"
  by (induction acc xs rule: hex_acc.induct) (auto split: option.splits)

lemma hex_digits_acc:
  "hex_acc acc (hex_digits n) = Some (acc * 16 ^ length (hex_digits n) + n)"
proof (induction n arbitrary: acc rule: hex_digits.induct)
  case (1 n)
  show ?case
  proof (cases "n < 16")
    case True
    then show ?thesis by (simp add: hex_digits.simps [of n] hex_char_val)
  next
    case False
    let ?L = "length (hex_digits (n div 16))"
    have eq: "hex_digits n = hex_digits (n div 16) @ [hex_char (n mod 16)]"
      using False by (simp add: hex_digits.simps [of n])
    have "hex_acc acc (hex_digits n) = hex_acc (acc * 16 ^ ?L + n div 16) [hex_char (n mod 16)]"
      using False by (simp add: eq hex_acc_append 1)
    also have "\<dots> = Some (16 * (acc * 16 ^ ?L + n div 16) + n mod 16)"
      by (simp add: hex_char_val)
    also have "16 * (acc * 16 ^ ?L + n div 16) + n mod 16 = acc * 16 ^ length (hex_digits n) + n"
      by (simp add: eq algebra_simps)
    finally show ?thesis .
  qed
qed

lemma hex_digits_nonempty: "hex_digits n \<noteq> []"
  by (subst hex_digits.simps) simp

lemma hex_digits_chars: "set (hex_digits n) \<subseteq> hex_char ` {..<16}"
proof (induction n rule: hex_digits.induct)
  case (1 n)
  then show ?case by (subst hex_digits.simps) auto
qed

lemma hex_digits_no_space: "CHR '' '' \<notin> set (hex_digits n)"
  using hex_digits_chars [of n] hex_char_not_space by fastforce

lemma hex_digits_no_minus: "CHR ''-'' \<notin> set (hex_digits n)"
  using hex_digits_chars [of n] hex_char_not_minus by fastforce

lemma hex_acc_zeros: "hex_acc 0 (replicate k (CHR ''0'') @ s) = hex_acc 0 s"
proof (induction k)
  case (Suc k)
  have "hex_digit_val (CHR ''0'') = Some 0" by (simp add: hex_digit_val_def)
  then show ?case using Suc by simp
qed simp

lemma hex_digits_val: "hex_acc 0 (hex_digits n) = Some n"
  using hex_digits_acc [of 0 n] by simp

lemma fmt_X_nonneg:
  "0 \<le> n \<Longrightarrow> fmt_X w n = replicate (w - length (hex_digits (nat n))) (CHR ''0'') @ hex_digits (nat n)"
  by (simp add: fmt_X_def Let_def)

lemma fmt_X_neg:
  "n < 0 \<Longrightarrow> fmt_X w n = CHR ''-'' # replicate (w - Suc (length (hex_digits (nat (- n))))) (CHR ''0'') @ hex_digits (nat (- n))"
  by (simp add: fmt_X_def Let_def)

lemma fmt_X_no_space: "CHR '' '' \<notin> set (fmt_X w n)"
  using hex_digits_no_space by (simp add: fmt_X_def Let_def)

lemma hex_val_fmt_X: "hex_val (fmt_X w n) = Some n"
proof (cases "n < 0")
  case True
  then show ?thesis
    by (simp add: fmt_X_neg hex_val_def hex_acc_zeros hex_digits_val hex_digits_nonempty)
next
  case False
  then have "hd (replicate k (CHR ''0'') @ hex_digits (nat n)) \<noteq> CHR ''-''" for k
    using hex_digits_no_minus [of "nat n"] hex_digits_nonempty [of "nat n"]
    by (cases k) (auto simp: hd_append dest: hd_in_set)
  with False show ?thesis
    by (simp add: fmt_X_nonneg hex_val_def hex_acc_zeros hex_digits_val hex_digits_nonempty)
qed

lemma split_on_append:
  "d \<notin> set a \<Longrightarrow> split_on d (a @ d # b) = a # split_on d b"
  by (induction a) (auto simp: Let_def)

lemma split_on_single: "d \<notin> set a \<Longrightarrow> split_on d a = [a]"
  by (induction a) (auto simp: Let_def)

lemma split_on_join:
  "d \<notin> set w \<Longrightarrow> \<forall>v\<in>set ws. d \<notin> set v \<Longrightarrow> split_on d (w @ concat (map (Cons d) ws)) = w # ws"
proof (induction ws arbitrary: w)
  case Nil
  then show ?case by (simp add: split_on_single)
next
  case (Cons v ws)
  then show ?case by (simp add: split_on_append)
qed

lemma map_nth_upto8: "length xs = 8 \<Longrightarrow> map (\<lambda>i. xs ! nat i) [0..7] = xs"
  by (simp add: upto.simps numeral_eq_Suc length_Suc_conv) (auto simp: length_Suc_conv)

lemma trace_format_fault:
  "py_percent ''TRACE: %02X | %02X %02X %02X |'' [a, b, c, d, e] = Inl TypeError"
  by simp

lemma trace_regs_Inr:
  "\<forall>i\<in>set is. 0 \<le> i \<and> i < int (length (reg c)) \<Longrightarrow>
     trace_regs is c = (Inr (), concat (map (\<lambda>i. '' '' @ fmt_X 2 (reg c ! nat i)) is))"
  by (induction "is") (simp_all add: py_get_nonneg_Inr)

lemma those_hex_val_fmt_X: "those (map (\<lambda>v. hex_val (fmt_X w v)) vs) = Some vs"
  by (induction vs) (simp_all add: hex_val_fmt_X)

section \<open>Properties of the trace printer\<close>

text \<open>
  C25. The register loop of \<open>CPU.trace\<close> round-trips: on a well-formed
  state it prints, and reading its output back (split at the spaces, each field
  read as signed hexadecimal) gives exactly the register file.
\<close>

lemma trace_regs_roundtrip:
  assumes "cpu_wf c"
  shows "\<exists>s. trace_regs [0..7] c = (Inr (), s) \<and> those (map hex_val (tl (split_on (CHR '' '') s))) = Some (reg c)"
proof -
  have len: "length (reg c) = 8" using assms by (simp add: cpu_wf_def)
  have "trace_regs [0..7] c = (Inr (), concat (map (\<lambda>i. '' '' @ fmt_X 2 (reg c ! nat i)) [0..7]))"
    using len by (intro trace_regs_Inr) simp
  also have "concat (map (\<lambda>i. '' '' @ fmt_X 2 (reg c ! nat i)) [0..7]) =
             [] @ concat (map (Cons (CHR '' '')) (map (fmt_X 2) (map (\<lambda>i. reg c ! nat i) [0..7])))"
    by (simp add: comp_def)
  also have "\<dots> = [] @ concat (map (Cons (CHR '' '')) (map (fmt_X 2) (reg c)))"
    using len by (simp only: map_nth_upto8)
  finally have tr: "trace_regs [0..7] c = (Inr (), [] @ concat (map (Cons (CHR '' '')) (map (fmt_X 2) (reg c))))" .
  have "split_on (CHR '' '') ([] @ concat (map (Cons (CHR '' '')) (map (fmt_X 2) (reg c)))) = [] # map (fmt_X 2) (reg c)"
    by (rule split_on_join) (auto simp: fmt_X_no_space)
  with tr show ?thesis by (simp add: comp_def those_hex_val_fmt_X)
qed

text \<open>
  C26. \<open>CPU.trace\<close> never prints anything and never returns normally: its
  format string has four conversions for five values.
\<close>

lemma trace_never_prints: "\<exists>e. trace c = (Inl e, [])"
proof -
  have "\<exists>e. bind_sum (ram_read c (pc c)) (\<lambda>m0.
           bind_sum (ram_read c (pc c + 1)) (\<lambda>m1.
           bind_sum (ram_read c (pc c + 2)) (\<lambda>m2.
             py_percent ''TRACE: %02X | %02X %02X %02X |'' [pc c, fl c, m0, m1, m2]))) = Inl e"
    by (intro bind_sum_all_Inl) (simp only: trace_format_fault, blast)
  then show ?thesis by (auto simp: trace_def)
qed

text \<open>
  C27. On a 256-cell memory and a non-negative program counter, \<open>CPU.trace\<close>
  raises \<open>TypeError\<close> while the three cells at \<open>pc\<close> exist, and
  \<open>IndexError\<close> (from the operand reads) once \<open>pc\<close> is 254 or more.
\<close>

lemma trace_fault:
  assumes "length (ram c) = 256" and "0 \<le> pc c"
  shows "trace c = (Inl (if pc c \<le> 253 then TypeError else IndexError), [])"
proof (cases "pc c \<le> 253")
  case True
  with assms show ?thesis
    by (simp add: trace_def ram_read_def py_get_nonneg_Inr trace_format_fault)
next
  case False
  then have m2: "py_get (ram c) (pc c + 2) = Inl IndexError"
    using assms by (simp add: py_get_out_of_range)
  with False show ?thesis
    by (cases "py_get (ram c) (pc c)"; cases "py_get (ram c) (pc c + 1)")
       (auto simp: trace_def ram_read_def dest: py_get_Inl_iff [THEN iffD1])
qed

end
