(* ===== verification/Stack.thy ===== *)
theory Stack
  imports Execute
begin

text \<open>
  The stack of the LS-8 as \<open>PUSH\<close> and \<open>POP\<close> of \<open>CPU.run\<close> (\<open>src/cpu.py\<close>,
  lines 123-130) keep it in memory: it grows downwards from a base address, \<open>sp\<close>
  is the next free cell, and Python's negative indices make memory a ring of 256
  cells. \<open>stack_cells base c\<close> is the abstraction: the cells from \<open>sp + 1\<close> up to
  the base, top first; \<open>stack_ok\<close> the invariant under which it is faithful (at most
  256 cells, so no two of them alias). The reference is a list stack over the
  register file (\<open>stack_spec\<close>), and \<open>stack_run\<close> runs a sequence of \<open>PUSH\<close>es and
  \<open>POP\<close>s through the handlers \<open>exec_push\<close> and \<open>exec_pop\<close> of Execute.
\<close>

datatype stack_op = Push int | Pop int

type_synonym stack_state = "int list \<times> int list"

definition stack_cells :: "int \<Rightarrow> cpu \<Rightarrow> int list" where
  "stack_cells base c = map (\<lambda>i. ram c ! nat (i mod 256)) [sp c + 1..base]"

definition stack_abs :: "int \<Rightarrow> cpu \<Rightarrow> stack_state" where
  "stack_abs base c = (reg c, stack_cells base c)"

definition stack_ok :: "int \<Rightarrow> cpu \<Rightarrow> bool" where
  "stack_ok base c \<longleftrightarrow> cpu_wf c \<and> 0 \<le> base \<and> base < 256 \<and> sp c \<le> base \<and> base - sp c \<le> 256"

fun exec_stack_op :: "stack_op \<Rightarrow> cpu \<Rightarrow> step_result result" where
  "exec_stack_op (Push r) c = exec_push r c"
| "exec_stack_op (Pop r) c = exec_pop r c"

fun stack_run :: "stack_op list \<Rightarrow> cpu \<Rightarrow> cpu result" where
  "stack_run [] c = Inr c"
| "stack_run (op # ops) c =
     bind_sum (exec_stack_op op c) (\<lambda>s. case s of Next p c' \<Rightarrow> stack_run ops c' | Halt \<Rightarrow> Inr c)"

text \<open>The reference: a list stack of at most 256 values beside the register file.\<close>

fun stack_spec :: "stack_op \<Rightarrow> stack_state \<Rightarrow> stack_state option" where
  "stack_spec (Push r) (rs, st) =
     (case py_get rs r of
        Inl e \<Rightarrow> None
      | Inr v \<Rightarrow> if length st < 256 then Some (rs, v # st) else None)"
| "stack_spec (Pop r) (rs, st) =
     (case st of
        [] \<Rightarrow> None
      | v # st' \<Rightarrow> (case py_set rs r v of Inl e \<Rightarrow> None | Inr rs' \<Rightarrow> Some (rs', st')))"

fun stack_spec_run :: "stack_op list \<Rightarrow> stack_state \<Rightarrow> stack_state option" where
  "stack_spec_run [] s = Some s"
| "stack_spec_run (op # ops) s = Option.bind (stack_spec op s) (stack_spec_run ops)"

text \<open>A sequence fits a stack of depth \<open>n\<close> when it never pops an empty stack and
  never pushes onto a full one.\<close>

fun stack_fits :: "stack_op list \<Rightarrow> nat \<Rightarrow> bool" where
  "stack_fits [] n = True"
| "stack_fits (Push r # ops) n = (n < 256 \<and> stack_fits ops (Suc n))"
| "stack_fits (Pop r # ops) n = (0 < n \<and> stack_fits ops (n - 1))"

section \<open>Lemmas\<close>

lemma stack_cells_length: "length (stack_cells base c) = nat (base - sp c)"
  by (simp add: stack_cells_def)

lemma mod256_inj:
  "j < i \<Longrightarrow> i - j < 256 \<Longrightarrow> nat (i mod 256) \<noteq> nat (j mod (256::int))"
proof
  assume "j < i" "i - j < 256" "nat (i mod 256) = nat (j mod (256::int))"
  then have "i mod 256 = j mod 256" by simp
  then have "(256::int) dvd i - j" by (simp add: mod_eq_dvd_iff)
  with \<open>j < i\<close> \<open>i - j < 256\<close> show False using zdvd_imp_le [of 256 "i - j"] by simp
qed

lemma stack_cells_write:
  assumes "base - sp c < 256"
  shows "map (\<lambda>i. (ram c)[nat (sp c mod 256) := v] ! nat (i mod 256)) [sp c + 1..base] =
         map (\<lambda>i. ram c ! nat (i mod 256)) [sp c + 1..base]"
proof (rule map_cong [OF refl])
  fix i assume "i \<in> set [sp c + 1..base]"
  then have "sp c < i" "i - sp c < 256" using assms by auto
  then show "(ram c)[nat (sp c mod 256) := v] ! nat (i mod 256) = ram c ! nat (i mod 256)"
    using mod256_inj [of "sp c" i] by simp
qed

lemma exec_push_stack:
  assumes ok: "stack_ok base c" and room: "base - sp c < 256" and v: "py_get (reg c) r = Inr v"
  shows "\<exists>c'. exec_push r c = Inr (Next [] c') \<and> reg c' = reg c
           \<and> stack_cells base c' = v # stack_cells base c \<and> stack_ok base c'"
proof -
  have len: "length (ram c) = 256" using ok by (simp add: stack_ok_def cpu_wf_def)
  have rng: "-256 \<le> sp c" "sp c < 256" using ok room by (auto simp: stack_ok_def)
  let ?m = "(ram c)[nat (sp c mod 256) := v]"
  let ?c = "c\<lparr>ram := ?m, pc := pc c + 2, sp := sp c - 1\<rparr>"
  have w: "ram_write c (sp c) v = Inr (c\<lparr>ram := ?m\<rparr>)"
    using rng len by (simp add: ram_write_def py_set_def py_index_mod)
  have push: "exec_push r c = Inr (Next [] ?c)"
    using v w by (simp add: exec_push_def)
  have "[sp c..base] = sp c # [sp c + 1..base]"
    using ok by (simp add: stack_ok_def upto_rec1)
  then have "stack_cells base ?c = v # stack_cells base c"
    using len rng room stack_cells_write [of base c v]
    by (simp add: stack_cells_def)
  moreover have "stack_ok base ?c" using ok room by (simp add: stack_ok_def cpu_wf_def)
  ultimately show ?thesis using push by auto
qed

lemma exec_pop_stack:
  assumes ok: "stack_ok base c" and ne: "sp c < base"
  shows "exec_pop r c =
           bind_sum (py_set (reg c) r (hd (stack_cells base c)))
             (\<lambda>rs. Inr (Next [] (c\<lparr>reg := rs, sp := sp c + 1, pc := pc c + 2\<rparr>)))"
    and "stack_cells base (c\<lparr>reg := rs, sp := sp c + 1, pc := pc c + 2\<rparr>) = tl (stack_cells base c)"
    and "length rs = 8 \<Longrightarrow> stack_ok base (c\<lparr>reg := rs, sp := sp c + 1, pc := pc c + 2\<rparr>)"
proof -
  have len: "length (ram c) = 256" using ok by (simp add: stack_ok_def cpu_wf_def)
  have rng: "-256 \<le> sp c + 1" "sp c + 1 < 256" using ok ne by (auto simp: stack_ok_def)
  have up: "[sp c + 1..base] = (sp c + 1) # [sp c + 2..base]"
    using ne by (simp add: upto_rec1 add.assoc)
  have "ram_read c (sp c + 1) = Inr (hd (stack_cells base c))"
    using len rng up by (simp add: ram_read_def py_get_def py_index_mod stack_cells_def)
  then show "exec_pop r c =
           bind_sum (py_set (reg c) r (hd (stack_cells base c)))
             (\<lambda>rs. Inr (Next [] (c\<lparr>reg := rs, sp := sp c + 1, pc := pc c + 2\<rparr>)))"
    by (simp add: exec_pop_def)
  show "stack_cells base (c\<lparr>reg := rs, sp := sp c + 1, pc := pc c + 2\<rparr>) = tl (stack_cells base c)"
    using up by (simp add: stack_cells_def add.assoc)
  show "length rs = 8 \<Longrightarrow> stack_ok base (c\<lparr>reg := rs, sp := sp c + 1, pc := pc c + 2\<rparr>)"
    using ok ne by (simp add: stack_ok_def cpu_wf_def)
qed

lemma exec_push_bad_reg: "py_get (reg c) r = Inl e \<Longrightarrow> exec_push r c = Inl e"
  by (simp add: exec_push_def)

lemma stack_op_sim:
  assumes ok: "stack_ok base c" and fits: "stack_fits (op # ops) (length (stack_cells base c))"
  shows "(\<exists>e. exec_stack_op op c = Inl e \<and> stack_spec op (stack_abs base c) = None)
       \<or> (\<exists>c'. exec_stack_op op c = Inr (Next [] c') \<and> stack_spec op (stack_abs base c) = Some (stack_abs base c')
              \<and> stack_ok base c' \<and> stack_fits ops (length (stack_cells base c')))"
proof (cases op)
  case (Push r)
  show ?thesis
  proof (cases "py_get (reg c) r")
    case (Inl e)
    then show ?thesis using Push by (simp add: exec_push_bad_reg stack_abs_def)
  next
    case (Inr v)
    have room: "base - sp c < 256"
      using ok fits Push by (simp add: stack_cells_length nat_less_iff stack_ok_def)
    obtain c' where c': "exec_push r c = Inr (Next [] c')" "reg c' = reg c"
      "stack_cells base c' = v # stack_cells base c" "stack_ok base c'"
      using exec_push_stack [OF ok room Inr] by blast
    then show ?thesis using Push Inr fits by (simp add: stack_abs_def)
  qed
next
  case (Pop r)
  then obtain v st where st: "stack_cells base c = v # st"
    using fits by (cases "stack_cells base c") auto
  then have ne: "sp c < base" using stack_cells_length [of base c] by auto
  note pop = exec_pop_stack [OF ok ne]
  show ?thesis
  proof (cases "py_set (reg c) r v")
    case (Inl e)
    then show ?thesis using Pop st pop(1) by (simp add: stack_abs_def)
  next
    case (Inr rs)
    have "length rs = 8"
      using py_set_length [OF Inr] ok by (simp add: stack_ok_def cpu_wf_def)
    then have "stack_ok base (c\<lparr>reg := rs, sp := sp c + 1, pc := pc c + 2\<rparr>)" by (rule pop(3))
    then show ?thesis using Pop st pop(1,2) Inr fits by (simp add: stack_abs_def)
  qed
qed

section \<open>The stack refines a list stack\<close>

text \<open>
  C28. As long as a sequence of \<open>PUSH\<close>es and \<open>POP\<close>s never pops an empty stack
  nor pushes onto a full one, running it through the handlers of \<open>CPU.run\<close> and
  then abstracting gives exactly what the list stack gives: the same registers,
  the same stack, and an error exactly where the list stack has none to give (a
  register index out of range).
\<close>

theorem stack_run_equiv:
  assumes "stack_ok base c" and "stack_fits ops (length (stack_cells base c))"
  shows "(case stack_run ops c of Inl e \<Rightarrow> None | Inr c' \<Rightarrow> Some (stack_abs base c'))
           = stack_spec_run ops (stack_abs base c)"
  using assms
proof (induction ops arbitrary: c)
  case Nil
  then show ?case by simp
next
  case (Cons op ops)
  from stack_op_sim [OF Cons.prems] show ?case
  proof
    assume "\<exists>e. exec_stack_op op c = Inl e \<and> stack_spec op (stack_abs base c) = None"
    then show ?case by auto
  next
    assume "\<exists>c'. exec_stack_op op c = Inr (Next [] c') \<and> stack_spec op (stack_abs base c) = Some (stack_abs base c')
              \<and> stack_ok base c' \<and> stack_fits ops (length (stack_cells base c'))"
    then obtain c' where c': "exec_stack_op op c = Inr (Next [] c')"
      "stack_spec op (stack_abs base c) = Some (stack_abs base c')"
      "stack_ok base c'" "stack_fits ops (length (stack_cells base c'))" by blast
    then show ?case using Cons.IH [OF c'(3,4)] by simp
  qed
qed

text \<open>
  C29. \<open>POP\<close> on an empty stack does not fail: it reads the cell just above the
  base into the register, moves \<open>sp\<close> above the base, and the stack invariant is
  lost.
\<close>

theorem pop_empty_stack:
  assumes "stack_ok base c" and "sp c = base" and "base < 255" and "-8 \<le> r" and "r < 8"
  shows "\<exists>c'. exec_pop r c = Inr (Next [] c') \<and> py_get (reg c') r = Inr (ram c ! nat (base + 1))
           \<and> sp c' = base + 1 \<and> \<not> stack_ok base c'"
proof -
  have len: "length (ram c) = 256" "length (reg c) = 8"
    using assms(1) by (simp_all add: stack_ok_def cpu_wf_def)
  have rd: "ram_read c (sp c + 1) = Inr (ram c ! nat (base + 1))"
    using assms len by (simp add: ram_read_def py_get_nonneg_Inr stack_ok_def)
  obtain rs where rs: "py_set (reg c) r (ram c ! nat (base + 1)) = Inr rs"
    using py_set_in_range [of "reg c" r] assms(4,5) len by auto
  have "py_get rs r = Inr (ram c ! nat (base + 1))" by (rule py_get_py_set_same [OF rs])
  then show ?thesis using rd rs assms(2) by (simp add: exec_pop_def stack_ok_def)
qed

text \<open>
  C24. The stack of the machine as it starts (base 0) overflows without an error:
  \<open>PUSH\<close> onto a full stack of 256 cells writes the pushed value over the bottom
  cell, so the abstraction shows it both on top and at the bottom, and only the
  next \<open>PUSH\<close> raises \<open>IndexError\<close>.
\<close>

theorem push_full_stack:
  assumes "stack_ok 0 c" and "sp c = -256" and "py_get (reg c) r = Inr v"
  shows "\<exists>c'. exec_push r c = Inr (Next [] c') \<and> stack_cells 0 c' = v # butlast (stack_cells 0 c) @ [v]
           \<and> exec_push r c' = Inl IndexError"
proof -
  have len: "length (ram c) = 256" using assms(1) by (simp add: stack_ok_def cpu_wf_def)
  let ?c = "c\<lparr>ram := (ram c)[0 := v], pc := pc c + 2, sp := -257\<rparr>"
  have push: "exec_push r c = Inr (Next [] ?c)"
    using assms len by (simp add: exec_push_def ram_write_def py_set_def py_index_def)
  have up: "[-256..0] = -256 # [-255..-1] @ [0::int]" "[-255..0] = [-255..-1] @ [0::int]"
    by (simp_all add: upto_rec1 upto_rec2)
  have "map (\<lambda>i. (ram c)[0 := v] ! nat (i mod 256)) [-255..-1] = map (\<lambda>i. ram c ! nat (i mod 256)) [-255..-1]"
  proof (rule map_cong [OF refl])
    fix i :: int assume "i \<in> set [-255..-1]"
    then have "nat (i mod 256) \<noteq> 0" using mod256_inj [of 0 "i + 256"] by auto
    then show "(ram c)[0 := v] ! nat (i mod 256) = ram c ! nat (i mod 256)" by simp
  qed
  then have "stack_cells 0 ?c = v # butlast (stack_cells 0 c) @ [v]"
    using assms(2) len up by (simp add: stack_cells_def)
  moreover have "exec_push r ?c = Inl IndexError"
    using assms(3) len by (simp add: exec_push_def ram_write_def py_set_def py_index_def)
  ultimately show ?thesis using push by blast
qed

end
