(* ===== verification/Progress.thy ===== *)
theory Progress
  imports Run
begin

text \<open>
  Termination and divergence of \<open>CPU.run\<close>. Programs without loops terminate. Only \<open>JMP\<close>, \<open>JEQ\<close> and
  \<open>JNE\<close> move the program counter backwards, and every other instruction that
  does not halt or fault moves it forwards; once it passes the last cell the
  fetch raises \<open>IndexError\<close>. A jump opcode can only be fetched if it is in
  memory, and memory only receives values that are already in memory or in a
  register, except through \<open>MUL\<close>. So a machine whose memory and registers hold
  no \<open>MUL\<close> or jump opcode stops within \<open>256 - pc\<close> steps. \<open>vals_in P c\<close> says
  that every cell and register satisfies \<open>P\<close>; \<open>loop_free_word\<close> is the \<open>P\<close> used
  here. Conversely, a state that the loop reaches again after at least one step
  never halts (\<open>cycle_diverges\<close>): \<open>run\<close> is \<open>None\<close> there, as for a
  \<open>JMP\<close> to its own address.
\<close>

definition vals_in :: "(int \<Rightarrow> bool) \<Rightarrow> cpu \<Rightarrow> bool" where
  "vals_in P c \<longleftrightarrow> list_all P (ram c) \<and> list_all P (reg c)"

definition loop_free_word :: "int \<Rightarrow> bool" where
  "loop_free_word v \<longleftrightarrow> v \<noteq> mul \<and> v \<noteq> jmp \<and> v \<noteq> jeq \<and> v \<noteq> jne"

section \<open>Lemmas\<close>

text \<open>Every handler but \<open>MUL\<close> only moves values that are already in the state.\<close>

lemma dispatch_vals_in:
  assumes "dispatch ir a b c = Inr (Next out c')" "ir \<noteq> mul" "vals_in P c" "P b"
  shows "vals_in P c'"
  using assms
  by (auto simp: dispatch_def handler_defs vals_in_def alu_CMP alu_operands_Inr_iff ram_write_Inr_iff
      ram_read_def
      split: if_splits prod.splits
      intro: py_get_list_all [of P "reg c"] py_get_list_all [of P "ram c"] elim!: py_set_list_all)

lemma dispatch_pc_forward:
  "dispatch ir a b c = Inr (Next out c') \<Longrightarrow> ir \<noteq> jmp \<Longrightarrow> ir \<noteq> jeq \<Longrightarrow> ir \<noteq> jne \<Longrightarrow> pc c < pc c'"
  by (auto simp: dispatch_def handler_defs opcode_defs py_list_simps
      dest: alu_frame ram_write_frame split: if_splits)

lemma step_progress:
  assumes "step c = Inr (Next out c')" "cpu_wf c" "0 \<le> pc c" "vals_in loop_free_word c"
  shows "pc c < pc c' \<and> vals_in loop_free_word c' \<and> cpu_wf c'"
proof -
  have len: "length (ram c) = 256" using assms(2) by (simp add: cpu_wf_def)
  have "pc c \<le> 253"
  proof (rule ccontr)
    assume "\<not> pc c \<le> 253"
    then have "step c = Inl IndexError" using assms(2) by (intro step_fetch_IndexError) simp_all
    with assms(1) show False by simp
  qed
  then have d: "dispatch (ram c ! nat (pc c)) (ram c ! nat (pc c + 1)) (ram c ! nat (pc c + 2)) c
                  = Inr (Next out c')"
    using assms(1-3) step_fetch by simp
  have "ram c ! nat (pc c) \<in> set (ram c)" "ram c ! nat (pc c + 2) \<in> set (ram c)"
    using len \<open>pc c \<le> 253\<close> assms(3) by (simp_all add: nth_mem)
  then have w: "loop_free_word (ram c ! nat (pc c))" "loop_free_word (ram c ! nat (pc c + 2))"
    using assms(4) by (simp_all add: vals_in_def list_all_iff)
  from w(1) have ir: "ram c ! nat (pc c) \<noteq> mul" "ram c ! nat (pc c) \<noteq> jmp"
    "ram c ! nat (pc c) \<noteq> jeq" "ram c ! nat (pc c) \<noteq> jne"
    by (simp_all add: loop_free_word_def)
  show ?thesis
    using dispatch_pc_forward [OF d ir(2-4)] dispatch_vals_in [OF d ir(1) assms(4) w(2)]
      step_Next_cpu_wf [OF assms(1,2)]
    by simp
qed

lemma exec_loop_free:
  "cpu_wf c \<Longrightarrow> 0 \<le> pc c \<Longrightarrow> vals_in loop_free_word c \<Longrightarrow> nat (256 - pc c) \<le> k \<Longrightarrow>
     \<exists>r. exec (Suc k) c out = Some r"
proof (induction k arbitrary: c out)
  case 0
  then have "step c = Inl IndexError" by (intro step_fetch_IndexError) simp_all
  then show ?case by simp
next
  case (Suc k)
  show ?case
  proof (cases "step c")
    case (Inl e)
    then show ?thesis by simp
  next
    case (Inr s)
    show ?thesis
    proof (cases s)
      case Halt
      then show ?thesis using Inr by simp
    next
      case (Next p c')
      then have "pc c < pc c' \<and> vals_in loop_free_word c' \<and> cpu_wf c'"
        using Inr Suc.prems(1-3) by (intro step_progress) simp_all
      then have "\<exists>r. exec (Suc k) c' (out @ p) = Some r"
        using Suc.prems(2,4) by (intro Suc.IH) auto
      then show ?thesis using Inr Next by simp
    qed
  qed
qed

text \<open>Following a trace never needs more fuel than running from its start.\<close>

lemma exec_steps:
  "steps c q c' \<Longrightarrow> exec n c out = Some r \<Longrightarrow> \<exists>m\<le>n. exec m c' (out @ q) = Some r"
proof (induction c q c' arbitrary: n out rule: steps.induct)
  case (steps_refl c)
  then show ?case by auto
next
  case (steps_step c p c1 q c')
  then obtain n' where n: "n = Suc n'" by (cases n) auto
  with steps_step have "exec n' c1 (out @ p) = Some r" by simp
  then obtain m where "m \<le> n'" "exec m c' (out @ p @ q) = Some r"
    using steps_step.IH by fastforce
  then show ?case using n by (intro exI [of _ m]) simp
qed

text \<open>A state that comes back to itself after at least one step never halts.\<close>

lemma cycle_diverges:
  assumes "step c = Inr (Next p c1)" and "steps c1 q c"
  shows "run c out = None"
proof -
  have "exec n c out = None" for n
  proof (induction n arbitrary: out rule: less_induct)
    case (less n)
    show ?case
    proof (cases n)
      case (Suc n')
      show ?thesis
      proof (rule ccontr)
        assume "exec n c out \<noteq> None"
        then obtain r where r: "exec n' c1 (out @ p) = Some r" using Suc assms(1) by auto
        obtain m where "m \<le> n'" "exec m c (out @ p @ q) = Some r"
          using exec_steps [OF assms(2) r] by auto
        with less [of m "out @ p @ q"] Suc show False by simp
      qed
    qed simp
  qed
  then show ?thesis using run_exec [of c out] by (cases "run c out") auto
qed

section \<open>Programs without loops terminate\<close>

text \<open>
  C30. A run started at a non-negative program counter on a machine whose memory
  and registers contain no \<open>MUL\<close>, \<open>JMP\<close>, \<open>JEQ\<close> or \<open>JNE\<close> opcode always ends
  (halts or faults), and \<open>257 - pc\<close> steps of fuel are enough.
\<close>

theorem loop_free_run_terminates:
  assumes "cpu_wf c" "0 \<le> pc c" "vals_in loop_free_word c"
  shows "\<exists>r. exec (Suc (nat (256 - pc c))) c out = Some r \<and> run c out = Some r"
  using exec_loop_free [OF assms order_refl] exec_run by blast

section \<open>A jump to itself diverges\<close>

text \<open>
  C7. A \<open>JMP\<close> whose register holds its own address loops forever: \<open>run\<close>
  returns \<open>None\<close>, the value of a run that never ends.
\<close>

theorem jmp_self_diverges:
  assumes "cpu_wf c" "0 \<le> pc c" "pc c \<le> 253" "ram c ! nat (pc c) = jmp"
    "py_get (reg c) (ram c ! nat (pc c + 1)) = Inr (pc c)"
  shows "run c out = None"
proof -
  have "step c = Inr (Next [] c)"
    using assms by (simp add: step_fetch dispatch_def opcode_defs exec_jmp_def)
  then show ?thesis using cycle_diverges steps_refl by blast
qed

end
