(* ===== verification/Files.thy ===== *)
theory Files
  imports Loader
begin

text \<open>
  The input side of \<open>CPU.load\<close> (\<open>src/cpu.py\<close>, lines 28-30) that \<open>load\<close> of
  Loader starts after: \<open>filename = sys.argv[1]\<close>, \<open>open(filename)\<close> and the
  iteration \<open>for line in f\<close>. The command line is a \<open>string list\<close> read with
  \<open>py_get\<close>, so a missing argument is Python's \<open>IndexError\<close>; the file system is a
  map \<open>files\<close> from names to contents, and a name outside its domain is
  \<open>FileNotFoundError\<close>. A file opened in text mode translates \<open>\r\n\<close> and a lone
  \<open>\r\<close> to \<open>\n\<close> (\<open>univ_newlines\<close>, Python's universal newlines), and iterating
  it yields the lines with their line breaks (\<open>py_lines\<close>). \<open>load_program\<close> is
  the whole method.
\<close>

type_synonym files = "string \<Rightarrow> string option"

fun univ_newlines :: "string \<Rightarrow> string" where
  "univ_newlines [] = []"
| "univ_newlines [ch] = [if ch = CHR 0x0D then CHR 0x0A else ch]"
| "univ_newlines (ch # ch' # s) =
     (if ch = CHR 0x0D \<and> ch' = CHR 0x0A then CHR 0x0A # univ_newlines s
      else (if ch = CHR 0x0D then CHR 0x0A else ch) # univ_newlines (ch' # s))"

fun py_lines :: "string \<Rightarrow> string list" where
  "py_lines [] = []"
| "py_lines (ch # s) =
     (if ch = CHR 0x0A then [CHR 0x0A] # py_lines s
      else (case py_lines s of [] \<Rightarrow> [[ch]] | l # ls \<Rightarrow> (ch # l) # ls))"

definition read_lines :: "files \<Rightarrow> string \<Rightarrow> string list result" where
  "read_lines fs filename =
     (case fs filename of
        None \<Rightarrow> Inl FileNotFoundError
      | Some text \<Rightarrow> Inr (py_lines (univ_newlines text)))"

definition load_program :: "string list \<Rightarrow> files \<Rightarrow> cpu \<Rightarrow> cpu result" where
  "load_program argv fs c =
     bind_sum (py_get argv 1) (\<lambda>filename.
     bind_sum (read_lines fs filename) (\<lambda>lines. load lines c))"

text \<open>The text of a program file as an assembler writes it: one binary literal per
  line, each ending in the line break \<open>eol\<close>.\<close>

definition program_text :: "string \<Rightarrow> int list \<Rightarrow> string" where
  "program_text eol p = concat (map (\<lambda>w. bin_digits (nat w) @ eol) p)"

section \<open>Lemmas\<close>

lemma univ_newlines_Cons:
  "ch \<noteq> CHR 0x0D \<Longrightarrow> univ_newlines (ch # s) = ch # univ_newlines s"
  by (cases s) simp_all

lemma univ_newlines_append:
  "CHR 0x0D \<notin> set l \<Longrightarrow> univ_newlines (l @ s) = l @ univ_newlines s"
proof (induction l)
  case (Cons a l)
  then have "a \<noteq> CHR 0x0D" by auto
  with Cons show ?case by (simp add: univ_newlines_Cons)
qed simp

lemma py_lines_append:
  "CHR 0x0A \<notin> set l \<Longrightarrow> py_lines (l @ CHR 0x0A # s) = (l @ [CHR 0x0A]) # py_lines s"
proof (induction l)
  case (Cons a l)
  then have "a \<noteq> CHR 0x0A" by auto
  with Cons show ?case by simp
qed simp

lemma bin_digits_no_break: "CHR 0x0A \<notin> set (bin_digits n)" "CHR 0x0D \<notin> set (bin_digits n)"
  using bin_digits_digits [of n] by auto

lemma LF_not_CR: "CHR 0x0A \<noteq> CHR 0x0D"
  by simp

lemma read_program_text:
  assumes "fs name = Some (program_text [CHR 0x0A] p) \<or> fs name = Some (program_text [CHR 0x0D, CHR 0x0A] p)"
  shows "read_lines fs name = Inr (map (\<lambda>w. bin_digits (nat w) @ [CHR 0x0A]) p)"
proof -
  have lf: "CHR 0x0D \<notin> set (program_text [CHR 0x0A] p)"
    by (simp add: program_text_def bin_digits_no_break LF_not_CR [symmetric])
  have "univ_newlines (program_text [CHR 0x0D, CHR 0x0A] p) = program_text [CHR 0x0A] p"
    by (induction p) (simp_all add: program_text_def univ_newlines_append bin_digits_no_break)
  moreover have "univ_newlines (program_text [CHR 0x0A] p) = program_text [CHR 0x0A] p"
    using univ_newlines_append [OF lf, of "[]"] by simp
  moreover have "py_lines (program_text [CHR 0x0A] p) = map (\<lambda>w. bin_digits (nat w) @ [CHR 0x0A]) p"
    by (induction p) (simp_all add: program_text_def py_lines_append bin_digits_no_break)
  ultimately show ?thesis using assms by (auto simp: read_lines_def)
qed

lemma parse_lines_program:
  "list_all (\<lambda>w. 0 \<le> w) p \<Longrightarrow> parse_lines (map (\<lambda>w. bin_digits (nat w) @ [CHR 0x0A]) p) = Inr p"
  by (induction p) (simp_all add: parse_line_bin_digits_LF)

section \<open>Loading a program file\<close>

text \<open>
  C19. Round trip through the file system: a file holding the binary literals of a
  program of at most 256 natural numbers, one per line, with \<open>\n\<close> or with \<open>\r\n\<close>
  line breaks, named by the first command-line argument, loads exactly that program
  into a fresh machine, the rest of memory zero.
\<close>

theorem load_program_roundtrip:
  assumes "list_all (\<lambda>w. 0 \<le> w) p" "length p \<le> 256"
    "fs name = Some (program_text [CHR 0x0A] p) \<or> fs name = Some (program_text [CHR 0x0D, CHR 0x0A] p)"
  shows "load_program [prog, name] fs cpu_init = Inr (cpu_init\<lparr>ram := p @ replicate (256 - length p) 0\<rparr>)"
proof -
  have "load_loop p 0 cpu_init = Inr (cpu_init\<lparr>ram := p @ replicate (256 - length p) 0\<rparr>)"
    using assms(2) load_loop_prefix [of 0 p cpu_init] by simp
  then show ?thesis
    using read_program_text [of fs name p, OF assms(3)] parse_lines_program [OF assms(1)]
    by (simp add: load_program_def load_def py_get_def py_index_def)
qed

text \<open>
  C21. The two ways \<open>CPU.load\<close> fails before reading a line: without a command-line
  argument \<open>sys.argv[1]\<close> raises \<open>IndexError\<close>, and a name that is not a file makes
  \<open>open\<close> raise \<open>FileNotFoundError\<close>; the machine is not changed in either case.
\<close>

theorem load_program_errors:
  "(length argv < 2 \<longrightarrow> load_program argv fs c = Inl IndexError) \<and>
   (2 \<le> length argv \<and> fs (argv ! 1) = None \<longrightarrow> load_program argv fs c = Inl FileNotFoundError)"
  by (simp add: load_program_def read_lines_def py_get_def py_index_def)

end
