(* ===== verification/Spec2Isabelle.thy ===== *)
theory Spec2Isabelle
  imports Run Loader Decode Trace Stack Progress Files
begin

text \<open>
  \<^bold>\<open>A verified model of the LS-8 emulator \<open>src/cpu.py\<close>.\<close>

  \<^emph>\<open>The program.\<close> \<open>src/cpu.py\<close> defines \<open>class CPU\<close>, an emulator of the LS-8, an
  8-bit stored-program machine: a memory of 256 cells (\<open>ram\<close>), eight general
  registers (\<open>reg\<close>), a program counter (\<open>pc\<close>), a stack pointer (\<open>sp\<close>) copied once
  from register 7, and a flag register (\<open>fl\<close>). \<open>load\<close> parses a program text (one
  binary literal per line, \<open>#\<close> comments) into memory from address 0; \<open>run\<close> is the
  fetch-decode-execute loop, which dispatches on the opcode to the handlers of
  \<open>LDI PRN MUL PUSH POP CMP JMP JEQ JNE HLT\<close> and calls \<open>alu\<close> for \<open>MUL\<close> and
  \<open>CMP\<close>; \<open>trace\<close> is a debugging printer that \<open>run\<close> never calls. A driver
  (\<open>ls8.py\<close>, not in the repository) builds a \<open>CPU\<close>, loads and runs it.

  \<^emph>\<open>The theories.\<close>
  \<^item> \<open>Prelude\<close>: Python's semantics as the components use it: the \<open>fault\<close>
    datatype of the ways a run ends abnormally (\<open>IndexError\<close>, \<open>ValueError\<close>,
    \<open>TypeError\<close>, the ALU's \<open>Exception\<close>, and the \<open>Invalid instruction\<close> exit),
    \<open>bind_sum\<close> for exception propagation, and \<open>py_get\<close>/\<open>py_set\<close>, list indexing
    with negative indices and \<open>IndexError\<close>, with their read-after-write lemmas and
    the \<open>list_all\<close> facts the invariants share.
  \<^item> \<open>Machine\<close>: the record \<open>cpu\<close> (the attributes of \<open>CPU\<close>), \<open>cpu_init\<close>
    (\<open>__init__\<close>), \<open>ram_read\<close>/\<open>ram_write\<close>, and the shape invariant \<open>cpu_wf\<close>.
  \<^item> \<open>ALU\<close>: \<open>alu\<close> (\<open>CPU.alu\<close>), the abstract \<open>flag\<close> datatype of comparison
    outcomes with its bit encoding \<open>flag_bits\<close>, and \<open>compare\<close>; \<open>CMP\<close> refines
    \<open>compare\<close> (C3), \<open>MUL\<close> stores the exact product (C12).
  \<^item> \<open>Execute\<close>: the body of the loop of \<open>CPU.run\<close>: the opcode constants, one handler
    per branch (\<open>exec_ldi\<close> \ldots \<open>exec_jne\<close>), \<open>dispatch\<close> (the \<open>if\<close>/\<open>elif\<close>
    chain) and \<open>step\<close> (fetch of \<open>ir\<close> and both operand cells, then dispatch). Its
    theorems are the single-step laws: the fetch-advance law against the opcode encoding
    (C1), push/pop inverse (C2), conditional jumps (C4, C5), invalid and unimplemented
    opcodes (C8, C10), the fetch bound at the end of memory (C11), the stack pointer's
    independence (C13) and \<open>PRN\<close> (C20).
  \<^item> \<open>Run\<close>: the loop itself as \<open>run\<close>, a \<^theory_text>\<open>partial_function (option)\<close>
    (\<open>None\<close> for a program that never halts, which the source allows), the same loop
    \<open>exec\<close> with fuel, and the small-step relation \<open>steps\<close> with the values printed.
    No fuel bound is fixed here: the lemmas say that fuel that suffices gives the result
    of \<open>run\<close> and that a run that returns needs only finite fuel; \<open>Progress\<close> gives a
    bound for loop-free programs and uses \<open>steps\<close> for divergence.
  \<^item> \<open>Loader\<close>: \<open>CPU.load\<close> from the lines of the file on: \<open>parse_line\<close> (strip,
    \<open>split(" #")\<close>, \<open>isnumeric\<close>, \<open>int(s, 2)\<close>), \<open>parse_lines\<close>, \<open>load_loop\<close>
    and \<open>load\<close>; a parse round trip (C14), the comment-separator behaviour (C15), the
    \<open>ValueError\<close> path (C16), and the two outcomes of storing a program (C17, C18).
  \<^item> \<open>Files\<close>: what \<open>CPU.load\<close> does before the lines: \<open>sys.argv[1]\<close> (the command
    line as a \<open>string list\<close>), \<open>open\<close> on a file system \<open>files\<close> (a map from names
    to contents), text-mode universal newlines (\<open>univ_newlines\<close>) and iteration over
    lines (\<open>py_lines\<close>), composed as \<open>load_program\<close>. A file of binary literals with
    \<open>\n\<close> or \<open>\r\n\<close> line breaks loads exactly its program (C19); a missing argument
    or file raises \<open>IndexError\<close> or \<open>FileNotFoundError\<close> (C21).
  \<^item> \<open>Decode\<close>: the specification's instruction table as the datatype \<open>instr\<close>
    with \<open>opcode_of\<close>, \<open>operand_count\<close>, \<open>sets_pc\<close> and the decoder \<open>decode\<close>,
    and the machine the specification describes, \<open>spec_exec\<close>: registers and memory
    are read and written by \<open>spec_get\<close>/\<open>spec_set\<close>, for which an index outside the
    list is fatal (spec sections 3, 4.1 and 7), and \<open>ADD\<close> and \<open>MUL\<close> reduce
    their result modulo 256 (\<open>wrap\<close>, spec sections 4.2, 4.3 and 8.5). The code refines it: whenever the specification
    gives a result for a decoded instruction other than \<open>ADD\<close> and a \<open>MUL\<close> product
    fits in a cell, \<open>dispatch\<close> gives the same result (C22); on \<open>MUL\<close> the two agree
    exactly when the product lies in \<open>0 .. 255\<close> (C23). The encodings carry the
    operand count and the set-PC bit (\<open>opcode_encoding_fields\<close>).
  \<^item> \<open>Trace\<close>: \<open>CPU.trace\<close> as \<open>trace\<close>, with Python's \<open>%\<close> (\<open>py_percent\<close>,
    for the directives \<open>%02X\<close> and \<open>%%\<close>; any other directive is a \<open>ValueError\<close>
    of the model) and its conversion \<open>%02X\<close> (\<open>fmt_X\<close>, \<open>hex_digits\<close>), the
    register loop \<open>trace_regs\<close>, and the readers \<open>hex_val\<close> and \<open>split_on\<close>. The
    register loop round-trips (C25), and the method as written never prints, because its
    format has four conversions for five values (C26, C27).
  \<^item> \<open>Stack\<close>: the stack that \<open>PUSH\<close>/\<open>POP\<close> keep in the memory ring, abstracted by
    \<open>stack_cells\<close> under the invariant \<open>stack_ok\<close> (at most 256 cells above \<open>sp\<close>),
    against the list-stack reference \<open>stack_spec_run\<close>: sequences that neither
    underflow nor overflow behave exactly as the reference (C28); \<open>POP\<close> on an empty
    stack fails silently (C29), and on the machine's own stack (base 0) a \<open>PUSH\<close> onto
    a full stack overwrites its bottom cell, the next one raising \<open>IndexError\<close> (C24).
  \<^item> \<open>Progress\<close>: termination. \<open>vals_in P\<close> says that all cells and registers
    satisfy \<open>P\<close>; with \<open>P = loop_free_word\<close> (no \<open>MUL\<close> or jump opcode) every step
    moves \<open>pc\<close> forwards and keeps \<open>P\<close>, so the run ends within \<open>257 - pc\<close> steps (C30);
    a state reached again after a step diverges, so a \<open>JMP\<close> to itself makes \<open>run\<close>
    \<open>None\<close> (C7).
    The fuel \<open>257 - pc\<close> is enough because \<open>pc\<close> rises by at least one per step and
    the fetch at \<open>pc > 253\<close> faults.
  \<^item> this theory: the driver \<open>boot_program\<close> (command line and file system),
    \<open>boot\<close>/\<open>boot_words\<close> (from the lines or the words) and \<open>exit_status\<close>, the
    example programs of the specification for all operands (C6), a first word that is
    not an instruction (C9), and booting a loop-free file, which always gives an
    outcome (C31).

  \<^emph>\<open>Correspondence.\<close> Python integers are \<open>int\<close> (they never wrap); lists are
  \<open>int list\<close> indexed through \<open>py_get\<close>/\<open>py_set\<close>; each method that mutates
  \<open>self\<close> takes the record and returns the new one inside \<open>fault + _\<close>; an exception
  or \<open>sys.exit\<close> is an \<open>Inl\<close>; \<open>print\<close> is the list of values a step or run emits.
  Every branch of \<open>run\<close> and \<open>alu\<close> is a branch of the model, in the source's order.

  \<^emph>\<open>Not modelled.\<close> Decoding the bytes of a file (the file system maps names to
  strings of characters, and characters outside ASCII are not considered); I/O errors
  other than a missing file (permissions, a directory); the decimal formatting of
  \<open>print\<close> in \<open>PRN\<close> (a printed value is the \<open>int\<close> itself); conversions of \<open>%\<close>
  other than \<open>%02X\<close> and \<open>%%\<close>, which the code does not use. \<open>ls8.py\<close> is not in the
  repository, so the driver is modelled from the specification.

  \<^emph>\<open>Plan.\<close> Modelled in this order: the engine (\<open>Execute\<close>, \<open>Run\<close>) with the ALU and
  state, then the loader, then the abstract decoder (\<open>Decode\<close>), then the trace printer,
  the stack refinement and termination, then the file input and divergence; last, the
  specification's machine in \<open>Decode\<close> was made to follow the specification's wrapping
  arithmetic and fatal accesses rather than the code's. Left for later: stack
  discipline inside whole programs run by \<open>step\<close> (where a deep stack can overwrite
  the program).
\<close>

definition boot :: "string list \<Rightarrow> outcome option" where
  "boot lines =
     (case load lines cpu_init of
        Inl f \<Rightarrow> Some (Inl f, [])
      | Inr c \<Rightarrow> run c [])"

definition boot_program :: "string list \<Rightarrow> files \<Rightarrow> outcome option" where
  "boot_program argv fs =
     (case load_program argv fs cpu_init of
        Inl f \<Rightarrow> Some (Inl f, [])
      | Inr c \<Rightarrow> run c [])"

definition boot_words :: "int list \<Rightarrow> outcome option" where
  "boot_words program =
     (case load_loop program 0 cpu_init of
        Inl f \<Rightarrow> Some (Inl f, [])
      | Inr c \<Rightarrow> run c [])"

definition exit_status :: "outcome \<Rightarrow> int" where
  "exit_status r = (case fst r of Inl f \<Rightarrow> 1 | Inr c \<Rightarrow> 0)"

section \<open>Test programs\<close>

definition mult_prog :: "int list" where
  "mult_prog = [0b10000010, 0, 8, 0b10000010, 1, 9, 0b10100010, 0, 1, 0b01000111, 0, 0b00000001]"

definition mul_prog :: "int \<Rightarrow> int \<Rightarrow> int list" where
  "mul_prog x y = [0b10000010, 0, x, 0b10000010, 1, y, 0b10100010, 0, 1, 0b01000111, 0, 0b00000001]"

text \<open>
  \<open>branch_prog x y\<close>: \<open>R0 := x; R1 := y; R2 := 20; CMP R0 R1; JEQ R2\<close>; the fall-through
  path prints 99 and halts, the target at address 20 prints \<open>R1\<close> and halts.
\<close>

definition branch_prog :: "int \<Rightarrow> int \<Rightarrow> int list" where
  "branch_prog x y =
     [0b10000010, 0, x, 0b10000010, 1, y, 0b10000010, 2, 20, 0b10100111, 0, 1, 0b01010101, 2,
      0b10000010, 3, 99, 0b01000111, 3, 0b00000001, 0b01000111, 1, 0b00000001]"

definition print8_lines :: "string list" where
  "print8_lines =
     [''# print8.ls8: print the number 8'' @ [CHR 0x0A],
      ''10000010 # LDI R0,8'' @ [CHR 0x0A], ''00000000'' @ [CHR 0x0A], ''00001000'' @ [CHR 0x0A],
      [CHR 0x0A],
      ''01000111 # PRN R0'' @ [CHR 0x0A], ''00000000'' @ [CHR 0x0A], ''00000001 # HLT'' @ [CHR 0x0A]]"

text \<open>
  Machine states used as concrete inputs below: \<open>fresh p\<close> is a fresh machine with the
  program \<open>p\<close> loaded; \<open>with_regs rs p\<close> the same with registers \<open>rs\<close>.
\<close>

definition fresh :: "int list \<Rightarrow> cpu" where
  "fresh p = cpu_init\<lparr>ram := p @ replicate (256 - length p) 0\<rparr>"

definition with_regs :: "int list \<Rightarrow> int list \<Rightarrow> cpu" where
  "with_regs rs p = (fresh p)\<lparr>reg := rs\<rparr>"

section \<open>Evaluation support\<close>

lemma load_loop_fresh:
  "length program \<le> 256 \<Longrightarrow>
     load_loop program 0 cpu_init = Inr (cpu_init\<lparr>ram := program @ replicate (256 - length program) 0\<rparr>)"
  using load_loop_prefix [of 0 program cpu_init] by simp

lemmas eval_simps = step_def ram_read_def ram_write_def py_get_def py_set_def py_index_def
  dispatch_def opcode_defs handler_defs alu_def

lemma replicate_8_zero: "replicate 8 (0::int) = [0, 0, 0, 0, 0, 0, 0, 0]"
  by (simp add: numeral_eq_Suc)

lemma cpu_wf_fresh: "length program \<le> 256 \<Longrightarrow> cpu_wf (cpu_init\<lparr>ram := program @ replicate (256 - length program) 0\<rparr>)"
  by (simp add: cpu_wf_def)

section \<open>End-to-end scenarios\<close>

text \<open>
  C6. The example programs of the specification, for every pair of operands:
  \<open>LDI R0,x; LDI R1,y; MUL R0,R1; PRN R0; HLT\<close> prints the product \<open>x * y\<close> and
  halts with exit status 0, and \<open>CMP R0,R1\<close> followed by \<open>JEQ\<close> branches to the
  address held in its register exactly when \<open>x = y\<close> (the target prints \<open>R1\<close>)
  and falls through otherwise (printing 99).
\<close>

theorem example_programs_run:
  "(\<exists>cf. boot_words (mul_prog x y) = Some (Inr cf, [x * y]) \<and> exit_status (Inr cf, [x * y]) = 0) \<and>
   (\<exists>cf. boot_words (branch_prog x y) = Some (Inr cf, [if x = y then y else 99]))"
proof
  show "\<exists>cf. boot_words (mul_prog x y) = Some (Inr cf, [x * y]) \<and> exit_status (Inr cf, [x * y]) = 0"
    by (simp add: boot_words_def mul_prog_def load_loop_fresh run.simps eval_simps exit_status_def)
  show "\<exists>cf. boot_words (branch_prog x y) = Some (Inr cf, [if x = y then y else 99])"
    by (cases "x = y") (auto simp: boot_words_def branch_prog_def load_loop_fresh run.simps eval_simps
        compare_def)
qed

text \<open>
  C9. A program whose first word is not a dispatched opcode ends at once with the
  \<open>InvalidInstruction\<close> fault naming that word, printing nothing, with exit status 1.
\<close>

theorem invalid_first_word:
  assumes "w \<notin> {ldi, prn, mul, push, pop, cmp, jmp, jeq, jne, hlt}" "length (w # rest) \<le> 256"
  shows "boot_words (w # rest) = Some (Inl (InvalidInstruction w), [])
    \<and> exit_status (Inl (InvalidInstruction w), []) = 1"
proof -
  let ?c = "cpu_init\<lparr>ram := (w # rest) @ replicate (256 - length (w # rest)) 0\<rparr>"
  have "step ?c = Inl (InvalidInstruction w)"
    using assms cpu_wf_fresh [OF assms(2)] by (simp add: step_fetch dispatch_def)
  moreover have "load_loop (w # rest) 0 cpu_init = Inr ?c" by (rule load_loop_fresh [OF assms(2)])
  ultimately show ?thesis by (simp add: boot_words_def run_fault exit_status_def del: load_loop.simps)
qed

section \<open>Loaded files\<close>

text \<open>
  C31. Booting a file whose words fit in memory and contain no \<open>MUL\<close>, \<open>JMP\<close>,
  \<open>JEQ\<close> or \<open>JNE\<close> opcode always ends: the driver returns an outcome.
\<close>

theorem loop_free_file_terminates:
  assumes "parse_lines lines = Inr program" "length program \<le> 256"
    "list_all loop_free_word program"
  shows "\<exists>r. boot lines = Some r"
proof -
  let ?c = "cpu_init\<lparr>ram := program @ replicate (256 - length program) 0\<rparr>"
  have load: "load lines cpu_init = Inr ?c"
    using assms(1) load_loop_fresh [OF assms(2)] by (simp add: load_def)
  have "loop_free_word 0" by (simp add: loop_free_word_def opcode_defs)
  then have v: "vals_in loop_free_word ?c"
    using assms(3) by (auto simp: vals_in_def list_all_iff set_replicate_conv_if)
  obtain r where "exec (Suc (nat (256 - pc ?c))) ?c [] = Some r"
    using exec_loop_free [OF cpu_wf_fresh [OF assms(2)] _ v order_refl, of "[]"] by auto
  then have "run ?c [] = Some r" by (rule exec_run)
  then show ?thesis using load by (simp add: boot_def)
qed

section \<open>Witnesses\<close>

text \<open>Each theorem with hypotheses, applied at a concrete machine state.\<close>

lemmas fixture_simps = fresh_def with_regs_def cpu_wf_def

theorem step_pc_advance_witness:
  "step (fresh mult_prog) = Inr (Next [] ((fresh mult_prog)\<lparr>reg := [8,0,0,0,0,0,0,0], pc := 3\<rparr>))
   \<and> py_get (ram (fresh mult_prog)) (pc (fresh mult_prog)) = Inr 130
   \<and> (pc ((fresh mult_prog)\<lparr>reg := [8,0,0,0,0,0,0,0], pc := 3\<rparr>) = pc (fresh mult_prog) + 1 + drop_bit 6 130
      \<or> (bit (130::int) 4 \<and> pc ((fresh mult_prog)\<lparr>reg := [8,0,0,0,0,0,0,0], pc := 3\<rparr>) \<in> set (reg (fresh mult_prog))))"
proof -
  have h1: "step (fresh mult_prog) = Inr (Next [] ((fresh mult_prog)\<lparr>reg := [8,0,0,0,0,0,0,0], pc := 3\<rparr>))"
    by (simp add: fresh_def mult_prog_def eval_simps replicate_8_zero)
  have h2: "py_get (ram (fresh mult_prog)) (pc (fresh mult_prog)) = Inr 130"
    by (simp add: fresh_def mult_prog_def py_get_def py_index_def)
  show ?thesis using h1 h2 step_pc_advance [OF h1 h2] by blast
qed

theorem push_pop_inverse_witness:
  "cpu_wf (with_regs [42,0,0,0,0,0,0,0] []) \<and> py_get (reg (with_regs [42,0,0,0,0,0,0,0] [])) 0 = Inr 42
   \<and> -256 \<le> sp (with_regs [42,0,0,0,0,0,0,0] []) \<and> sp (with_regs [42,0,0,0,0,0,0,0] []) < 256
   \<and> -8 \<le> (1::int) \<and> (1::int) < 8
   \<and> (\<exists>c1 c2. exec_push 0 (with_regs [42,0,0,0,0,0,0,0] []) = Inr (Next [] c1)
        \<and> exec_pop 1 c1 = Inr (Next [] c2) \<and> py_get (reg c2) 1 = Inr 42
        \<and> sp c2 = sp (with_regs [42,0,0,0,0,0,0,0] []) \<and> pc c2 = pc (with_regs [42,0,0,0,0,0,0,0] []) + 4)"
proof -
  have h: "cpu_wf (with_regs [42,0,0,0,0,0,0,0] [])" "py_get (reg (with_regs [42,0,0,0,0,0,0,0] [])) 0 = Inr 42"
    "-256 \<le> sp (with_regs [42,0,0,0,0,0,0,0] [])" "sp (with_regs [42,0,0,0,0,0,0,0] []) < 256"
    "-8 \<le> (1::int)" "(1::int) < 8"
    by (simp_all add: fixture_simps py_get_def py_index_def)
  show ?thesis using h push_pop_inverse [OF h] by blast
qed

theorem alu_cmp_flag_witness:
  "py_get (reg (with_regs [5,5,0,0,0,0,0,0] [])) 0 = Inr 5 \<and> py_get (reg (with_regs [5,5,0,0,0,0,0,0] [])) 1 = Inr 5
   \<and> alu ''CMP'' 0 1 (with_regs [5,5,0,0,0,0,0,0] []) = Inr ((with_regs [5,5,0,0,0,0,0,0] [])\<lparr>fl := 1\<rparr>)"
proof -
  have h: "py_get (reg (with_regs [5,5,0,0,0,0,0,0] [])) 0 = Inr 5"
    "py_get (reg (with_regs [5,5,0,0,0,0,0,0] [])) 1 = Inr 5"
    by (simp_all add: fixture_simps py_get_def py_index_def)
  show ?thesis using h alu_cmp_flag [OF h] by (simp add: compare_def)
qed

theorem step_jeq_witness:
  "step ((with_regs [0,0,7,0,0,0,0,0] [0b01010101, 2])\<lparr>fl := 1\<rparr>)
     = Inr (Next [] ((with_regs [0,0,7,0,0,0,0,0] [0b01010101, 2])\<lparr>fl := 1, pc := 7\<rparr>))"
proof -
  let ?c = "(with_regs [0,0,7,0,0,0,0,0] [0b01010101, 2])\<lparr>fl := 1\<rparr>"
  have h: "cpu_wf ?c" "0 \<le> pc ?c" "pc ?c \<le> 253" "ram ?c ! nat (pc ?c) = jeq"
    "py_get (reg ?c) (ram ?c ! nat (pc ?c + 1)) = Inr 7"
    by (simp_all add: fixture_simps jeq_def py_get_def py_index_def)
  show ?thesis using step_jeq [OF h] by simp
qed

theorem step_jne_witness:
  "step ((with_regs [0,0,7,0,0,0,0,0] [0b01010110, 2])\<lparr>fl := 1\<rparr>)
     = Inr (Next [] ((with_regs [0,0,7,0,0,0,0,0] [0b01010110, 2])\<lparr>fl := 1, pc := 2\<rparr>))"
proof -
  let ?c = "(with_regs [0,0,7,0,0,0,0,0] [0b01010110, 2])\<lparr>fl := 1\<rparr>"
  have h: "cpu_wf ?c" "0 \<le> pc ?c" "pc ?c \<le> 253" "ram ?c ! nat (pc ?c) = jne"
    "py_get (reg ?c) (ram ?c ! nat (pc ?c + 1)) = Inr 7"
    by (simp_all add: fixture_simps jne_def py_get_def py_index_def)
  show ?thesis using step_jne [OF h] by (simp add: fixture_simps)
qed

theorem step_invalid_opcode_witness:
  "step (fresh [255]) = Inl (InvalidInstruction 255)"
proof -
  have h: "cpu_wf (fresh [255])" "0 \<le> pc (fresh [255])" "pc (fresh [255]) \<le> 253"
    "ram (fresh [255]) ! nat (pc (fresh [255])) \<notin> {ldi, prn, mul, push, pop, cmp, jmp, jeq, jne, hlt}"
    by (simp_all add: fixture_simps opcode_defs)
  show ?thesis using step_invalid_opcode [OF h] by (simp add: fresh_def)
qed

theorem invalid_first_word_witness:
  "boot_words [255] = Some (Inl (InvalidInstruction 255), [])"
proof -
  have h: "(255::int) \<notin> {ldi, prn, mul, push, pop, cmp, jmp, jeq, jne, hlt}" "length [255::int] \<le> 256"
    by (simp_all add: opcode_defs)
  show ?thesis using invalid_first_word [OF h] by simp
qed

theorem step_add_opcode_invalid_witness:
  "step (fresh [0b10100000, 0, 1]) = Inl (InvalidInstruction 160)"
proof -
  have h: "cpu_wf (fresh [0b10100000, 0, 1])" "0 \<le> pc (fresh [0b10100000, 0, 1])"
    "pc (fresh [0b10100000, 0, 1]) \<le> 253" "ram (fresh [0b10100000, 0, 1]) ! nat (pc (fresh [0b10100000, 0, 1])) = add"
    by (simp_all add: fixture_simps add_def)
  show ?thesis using step_add_opcode_invalid [OF h] by simp
qed

theorem step_hlt_last_cells_faults_witness:
  "step ((fresh (replicate 254 0 @ [0b00000001]))\<lparr>pc := 254\<rparr>) = Inl IndexError"
proof -
  let ?c = "(fresh (replicate 254 0 @ [0b00000001]))\<lparr>pc := 254\<rparr>"
  have h: "cpu_wf ?c" "pc ?c \<in> {254, 255}" "ram ?c ! nat (pc ?c) = hlt"
    by (simp_all add: fixture_simps hlt_def nth_append)
  show ?thesis by (rule step_hlt_last_cells_faults [OF h])
qed

theorem alu_mul_product_witness:
  "alu ''MUL'' 0 1 (with_regs [200, 2, 0, 0, 0, 0, 0, 0] [])
     = Inr ((with_regs [200, 2, 0, 0, 0, 0, 0, 0] [])\<lparr>reg := [400, 2, 0, 0, 0, 0, 0, 0]\<rparr>)"
proof -
  let ?c = "with_regs [200, 2, 0, 0, 0, 0, 0, 0] []"
  have h: "py_index 0 (length (reg ?c)) = Some 0" "py_get (reg ?c) 1 = Inr 2"
    by (simp_all add: fixture_simps py_get_def py_index_def)
  show ?thesis using alu_mul_product [OF h] by (simp add: fixture_simps)
qed

theorem step_sp_change_witness:
  "step (fresh [0b01000101, 0]) = Inr (Next [] ((fresh [0b01000101, 0])\<lparr>ram := (ram (fresh [0b01000101, 0]))[0 := 0], pc := 2, sp := -1\<rparr>))
   \<and> sp ((fresh [0b01000101, 0])\<lparr>ram := (ram (fresh [0b01000101, 0]))[0 := 0], pc := 2, sp := -1\<rparr>) = sp (fresh [0b01000101, 0]) - 1"
proof -
  let ?c = "fresh [0b01000101, 0]"
  let ?c' = "?c\<lparr>ram := (ram ?c)[0 := 0], pc := 2, sp := -1\<rparr>"
  have h1: "step ?c = Inr (Next [] ?c')" by (simp add: fresh_def eval_simps replicate_8_zero)
  have h2: "py_get (ram ?c) (pc ?c) = Inr 0b01000101" by (simp add: fresh_def py_get_def py_index_def)
  show ?thesis using h1 step_sp_change [OF h1 h2] by (simp add: push_def)
qed

theorem parse_line_comment_needs_space_witness:
  "parse_line (bin_digits 130 @ CHR ''#'' # '' LDI R0,8'') = Inr None"
proof -
  have h: "split_head '' #'' '' LDI R0,8'' = '' LDI R0,8''" by simp
  show ?thesis by (rule parse_line_comment_needs_space [OF h])
qed

theorem dispatch_refines_spec_witness:
  "dispatch mul 0 1 (with_regs [8, 9, 0, 0, 0, 0, 0, 0] [])
     = Inr (Next [] ((with_regs [8, 9, 0, 0, 0, 0, 0, 0] [])\<lparr>reg := [72, 9, 0, 0, 0, 0, 0, 0], pc := 3\<rparr>))"
proof -
  let ?c = "with_regs [8, 9, 0, 0, 0, 0, 0, 0] []"
  have h: "decode mul = Some MUL" "MUL \<noteq> ADD"
    "spec_exec MUL 0 1 ?c = Inr (Next [] (?c\<lparr>reg := [72, 9, 0, 0, 0, 0, 0, 0], pc := 3\<rparr>))"
    "mul_fits MUL 0 1 ?c"
    by (simp_all add: decode_def opcode_defs spec_exec_def spec_get_def spec_set_def wrap_def
        mul_fits_def fixture_simps)
  show ?thesis by (rule dispatch_refines_spec [OF h])
qed

theorem mul_agrees_iff_fits_witness:
  "dispatch mul 0 1 (with_regs [8, 9, 0, 0, 0, 0, 0, 0] []) = spec_exec MUL 0 1 (with_regs [8, 9, 0, 0, 0, 0, 0, 0] [])
   \<and> dispatch mul 0 1 (with_regs [200, 100, 0, 0, 0, 0, 0, 0] [])
       \<noteq> spec_exec MUL 0 1 (with_regs [200, 100, 0, 0, 0, 0, 0, 0] [])"
proof -
  have h1: "spec_get (reg (with_regs [8, 9, 0, 0, 0, 0, 0, 0] [])) 0 = Inr 8"
    "spec_get (reg (with_regs [8, 9, 0, 0, 0, 0, 0, 0] [])) 1 = Inr 9"
    by (simp_all add: spec_get_def fixture_simps)
  have h2: "spec_get (reg (with_regs [200, 100, 0, 0, 0, 0, 0, 0] [])) 0 = Inr 200"
    "spec_get (reg (with_regs [200, 100, 0, 0, 0, 0, 0, 0] [])) 1 = Inr 100"
    by (simp_all add: spec_get_def fixture_simps)
  show ?thesis using mul_agrees_iff_fits [OF h1] mul_agrees_iff_fits [OF h2] by simp
qed

theorem parse_line_ValueError_witness: "parse_line ''102'' = Inl ValueError"
proof -
  have h: "py_isnumeric ''102''" "\<not> list_all (\<lambda>ch. ch = CHR ''0'' \<or> ch = CHR ''1'') ''102''"
    by (simp_all add: py_isnumeric_def py_isdigit_def)
  show ?thesis by (rule parse_line_ValueError [OF h])
qed

theorem load_loop_init_witness:
  "load_loop mult_prog 0 cpu_init = Inr (cpu_init\<lparr>ram := mult_prog @ replicate 244 0\<rparr>)"
proof -
  have h: "length mult_prog \<le> 256" by (simp add: mult_prog_def)
  show ?thesis using load_loop_init [OF h] by (simp add: mult_prog_def)
qed

theorem load_loop_too_long_witness: "load_loop (replicate 257 0) 0 cpu_init = Inl IndexError"
proof -
  have h: "256 < length (replicate 257 (0::int))" by simp
  show ?thesis by (rule load_loop_too_long [OF h])
qed

theorem step_prn_witness:
  "step (with_regs [8, 0, 0, 0, 0, 0, 0, 0] [0b01000111, 0])
     = Inr (Next [8] ((with_regs [8, 0, 0, 0, 0, 0, 0, 0] [0b01000111, 0])\<lparr>pc := 2\<rparr>))"
proof -
  let ?c = "with_regs [8, 0, 0, 0, 0, 0, 0, 0] [0b01000111, 0]"
  have h: "cpu_wf ?c" "0 \<le> pc ?c" "pc ?c \<le> 253" "ram ?c ! nat (pc ?c) = prn"
    "py_get (reg ?c) (ram ?c ! nat (pc ?c + 1)) = Inr 8"
    by (simp_all add: fixture_simps prn_def py_get_def py_index_def)
  show ?thesis using step_prn [OF h] by (simp add: fixture_simps)
qed

theorem trace_regs_roundtrip_witness:
  "\<exists>s. trace_regs [0..7] (with_regs [8, -1, 255, 0, 0, 0, 0, 72] []) = (Inr (), s)
       \<and> those (map hex_val (tl (split_on (CHR '' '') s))) = Some [8, -1, 255, 0, 0, 0, 0, 72]"
proof -
  have h: "cpu_wf (with_regs [8, -1, 255, 0, 0, 0, 0, 72] [])" by (simp add: fixture_simps)
  show ?thesis using trace_regs_roundtrip [OF h] by (simp add: fixture_simps)
qed

theorem trace_fault_witness:
  "trace (fresh mult_prog) = (Inl TypeError, [])
   \<and> trace ((fresh mult_prog)\<lparr>pc := 254\<rparr>) = (Inl IndexError, [])"
proof -
  have h1: "length (ram (fresh mult_prog)) = 256" "0 \<le> pc (fresh mult_prog)"
    by (simp_all add: fresh_def mult_prog_def)
  have h2: "length (ram ((fresh mult_prog)\<lparr>pc := 254\<rparr>)) = 256" "0 \<le> pc ((fresh mult_prog)\<lparr>pc := 254\<rparr>)"
    by (simp_all add: fresh_def mult_prog_def)
  show ?thesis using trace_fault [OF h1] trace_fault [OF h2] by (simp add: fresh_def)
qed

theorem stack_run_equiv_witness:
  "(case stack_run [Push 0, Push 1, Pop 2, Pop 3] (with_regs [1, 2, 0, 0, 0, 0, 0, 0] []) of
      Inl e \<Rightarrow> None | Inr c' \<Rightarrow> Some (stack_abs 0 c'))
   = Some ([1, 2, 2, 1, 0, 0, 0, 0], [])"
proof -
  let ?c = "with_regs [1, 2, 0, 0, 0, 0, 0, 0] []"
  let ?ops = "[Push 0, Push 1, Pop 2, Pop 3]"
  have h1: "stack_ok 0 ?c" by (simp add: stack_ok_def fixture_simps)
  have h2: "stack_fits ?ops (length (stack_cells 0 ?c))" by (simp add: stack_cells_length fixture_simps)
  have "stack_spec_run ?ops (stack_abs 0 ?c) = Some ([1, 2, 2, 1, 0, 0, 0, 0], [])"
    by (simp add: stack_abs_def stack_cells_def fixture_simps py_get_def py_set_def py_index_def)
  then show ?thesis using stack_run_equiv [OF h1 h2] by simp
qed

theorem pop_empty_stack_witness:
  "\<exists>c'. exec_pop 0 (fresh mult_prog) = Inr (Next [] c') \<and> py_get (reg c') 0 = Inr (ram (fresh mult_prog) ! 1)
        \<and> sp c' = 1 \<and> \<not> stack_ok 0 c'"
proof -
  have h: "stack_ok 0 (fresh mult_prog)" "sp (fresh mult_prog) = 0" "(0::int) < 255" "-8 \<le> (0::int)" "(0::int) < 8"
    by (simp_all add: stack_ok_def fixture_simps mult_prog_def)
  show ?thesis using pop_empty_stack [OF h] by simp
qed

theorem loop_free_file_terminates_witness: "\<exists>r. boot print8_lines = Some r"
proof -
  have h1: "parse_lines print8_lines = Inr [0b10000010, 0, 8, 0b01000111, 0, 0b00000001]"
    by (simp add: print8_lines_def parse_line_def py_strip_def py_isspace_def
        py_isnumeric_def py_isdigit_def)
  have h2: "length [0b10000010, 0, 8, 0b01000111, 0, 0b00000001::int] \<le> 256" by simp
  have h3: "list_all loop_free_word [0b10000010, 0, 8, 0b01000111, 0, 0b00000001]"
    by (simp add: loop_free_word_def opcode_defs)
  show ?thesis by (rule loop_free_file_terminates [OF h1 h2 h3])
qed

theorem loop_free_run_terminates_witness:
  "\<exists>r. exec 257 (fresh [0b10000010, 0, 8, 0b01000111, 0, 0b00000001]) [] = Some r
     \<and> run (fresh [0b10000010, 0, 8, 0b01000111, 0, 0b00000001]) [] = Some r"
proof -
  let ?c = "fresh [0b10000010, 0, 8, 0b01000111, 0, 0b00000001]"
  have h: "cpu_wf ?c" "0 \<le> pc ?c" "vals_in loop_free_word ?c"
    by (simp_all add: fixture_simps vals_in_def list_all_iff loop_free_word_def opcode_defs)
  show ?thesis using loop_free_run_terminates [OF h, of "[]"] by (simp add: fresh_def)
qed

theorem jmp_self_diverges_witness: "run (fresh [0b01010100, 0]) [] = None \<and> boot_words [0b01010100, 0] = None"
proof -
  let ?c = "fresh [0b01010100, 0]"
  have h: "cpu_wf ?c" "0 \<le> pc ?c" "pc ?c \<le> 253" "ram ?c ! nat (pc ?c) = jmp"
    "py_get (reg ?c) (ram ?c ! nat (pc ?c + 1)) = Inr (pc ?c)"
    by (simp_all add: fixture_simps jmp_def py_get_def py_index_def)
  have "load_loop [0b01010100, 0] 0 cpu_init = Inr ?c"
    unfolding fresh_def by (rule load_loop_fresh) simp
  then show ?thesis using jmp_self_diverges [OF h, of "[]"] by (simp add: boot_words_def del: load_loop.simps)
qed

theorem load_program_roundtrip_witness:
  "load_program [''ls8'', ''print8.ls8'']
     (\<lambda>n. if n = ''print8.ls8'' then Some (program_text [CHR 0x0D, CHR 0x0A] [0b10000010, 0, 8, 0b01000111, 0, 0b00000001]) else None)
     cpu_init = Inr (fresh [0b10000010, 0, 8, 0b01000111, 0, 0b00000001])
   \<and> (\<exists>cf. boot_program [''ls8'', ''print8.ls8'']
     (\<lambda>n. if n = ''print8.ls8'' then Some (program_text [CHR 0x0D, CHR 0x0A] [0b10000010, 0, 8, 0b01000111, 0, 0b00000001]) else None)
     = Some (Inr cf, [8]))"
proof -
  let ?p = "[0b10000010, 0, 8, 0b01000111, 0, 0b00000001] :: int list"
  let ?fs = "\<lambda>n. if n = ''print8.ls8'' then Some (program_text [CHR 0x0D, CHR 0x0A] ?p) else None"
  have h: "list_all (\<lambda>w. 0 \<le> w) ?p" "length ?p \<le> 256"
    "?fs ''print8.ls8'' = Some (program_text [CHR 0x0A] ?p) \<or> ?fs ''print8.ls8'' = Some (program_text [CHR 0x0D, CHR 0x0A] ?p)"
    by simp_all
  have l: "load_program [''ls8'', ''print8.ls8''] ?fs cpu_init = Inr (fresh ?p)"
    using load_program_roundtrip [where p = ?p and fs = ?fs and name = "''print8.ls8''", OF h, of "''ls8''"]
    by (simp add: fresh_def)
  have "\<exists>cf. run (fresh ?p) [] = Some (Inr cf, [8])"
    by (simp add: fresh_def run.simps eval_simps)
  then show ?thesis using l by (simp add: boot_program_def)
qed

theorem load_program_errors_witness:
  "load_program [''ls8''] (\<lambda>n. None) cpu_init = Inl IndexError
   \<and> load_program [''ls8'', ''missing.ls8''] (\<lambda>n. None) cpu_init = Inl FileNotFoundError"
  using load_program_errors [of "[''ls8'']" "\<lambda>n. None" cpu_init]
    load_program_errors [of "[''ls8'', ''missing.ls8'']" "\<lambda>n. None" cpu_init]
  by simp

theorem push_full_stack_witness:
  "\<exists>c'. exec_push 0 ((with_regs [7, 0, 0, 0, 0, 0, 0, 0] [])\<lparr>sp := -256\<rparr>) = Inr (Next [] c')
     \<and> stack_cells 0 c' = 7 # butlast (stack_cells 0 ((with_regs [7, 0, 0, 0, 0, 0, 0, 0] [])\<lparr>sp := -256\<rparr>)) @ [7]
     \<and> exec_push 0 c' = Inl IndexError"
proof -
  let ?c = "(with_regs [7, 0, 0, 0, 0, 0, 0, 0] [])\<lparr>sp := -256\<rparr>"
  have h: "stack_ok 0 ?c" "sp ?c = -256" "py_get (reg ?c) 0 = Inr 7"
    by (simp_all add: stack_ok_def fixture_simps py_get_def py_index_def)
  show ?thesis by (rule push_full_stack [OF h])
qed

end
